theory Spec2Isabelle
  imports Complex_Main "HOL-Library.AList"
begin

section \<open>Python values used by the navigation tasks\<close>

subsection \<open>Floats\<close>

text \<open>
  A Python \<^verbatim>\<open>float\<close> is an IEEE-754 binary64 value: a finite number, one of the two
  infinities, or NaN.  A finite value is kept as the rational number it denotes.  The two
  zeros \<^verbatim>\<open>0.0\<close> and \<^verbatim>\<open>-0.0\<close> are one value here; they compare equal in Python and the
  operations the tasks use (\<^verbatim>\<open>+\<close>, \<^verbatim>\<open>-\<close>, \<^verbatim>\<open><\<close>, \<^verbatim>\<open>==\<close>, \<^verbatim>\<open>bool\<close>, \<^verbatim>\<open>isnan\<close>) do not tell them apart.
\<close>

datatype pyfloat = Finite rat | PosInf | NegInf | NaN

text \<open>\<open>bit_length n\<close> is Python's \<^verbatim>\<open>int.bit_length\<close> for a non-negative \<open>n\<close>.\<close>

function bit_length :: "int \<Rightarrow> int" where
  "bit_length n = (if n \<le> 0 then 0 else 1 + bit_length (n div 2))"
  by pat_completeness auto
termination
  by (relation "measure nat") auto

declare bit_length.simps [simp del]

definition pow2 :: "int \<Rightarrow> rat" where
  "pow2 k = (if 0 \<le> k then 2 ^ nat k else 1 / 2 ^ nat (- k))"

text \<open>For \<open>0 < q\<close>, \<open>floor_log2 q\<close> is the exponent \<open>e\<close> with \<open>2\<^sup>e \<le> q < 2\<^sup>e\<^sup>+\<^sup>1\<close>.\<close>

definition floor_log2 :: "rat \<Rightarrow> int" where
  "floor_log2 q =
     (if 1 \<le> q then bit_length \<lfloor>q\<rfloor> - 1 else - bit_length (\<lceil>1 / q\<rceil> - 1))"

definition round_half_even :: "rat \<Rightarrow> int" where
  "round_half_even q =
     (let f = \<lfloor>q\<rfloor>; r = q - of_int f
      in if r < 1 / 2 then f
         else if 1 / 2 < r then f + 1
         else if even f then f else f + 1)"

text \<open>
  Rounding of an exact result to binary64, to nearest with ties to even: 53 significant
  bits, least normal exponent \<open>-1022\<close> (below it the spacing stays \<open>2\<^sup>-\<^sup>1\<^sup>0\<^sup>7\<^sup>4\<close>), and overflow to
  an infinity when the rounded magnitude reaches \<open>2\<^sup>1\<^sup>0\<^sup>2\<^sup>4\<close>.
\<close>

definition round_double :: "rat \<Rightarrow> pyfloat" where
  "round_double q =
     (if q = 0 then Finite 0
      else let e = max (floor_log2 \<bar>q\<bar>) (- 1022);
               ulp = pow2 (e - 52);
               r = of_int (round_half_even (q / ulp)) * ulp
           in if pow2 1024 \<le> \<bar>r\<bar> then (if 0 < q then PosInf else NegInf)
              else Finite r)"

text \<open>A decimal literal of the source, such as \<^verbatim>\<open>0.01\<close>, denotes the nearest double.\<close>

definition py_float :: "rat \<Rightarrow> pyfloat" where
  "py_float q = round_double q"

fun fadd :: "pyfloat \<Rightarrow> pyfloat \<Rightarrow> pyfloat" where
  "fadd NaN _ = NaN"
| "fadd _ NaN = NaN"
| "fadd PosInf NegInf = NaN"
| "fadd NegInf PosInf = NaN"
| "fadd PosInf _ = PosInf"
| "fadd _ PosInf = PosInf"
| "fadd NegInf _ = NegInf"
| "fadd _ NegInf = NegInf"
| "fadd (Finite a) (Finite b) = round_double (a + b)"

fun fneg :: "pyfloat \<Rightarrow> pyfloat" where
  "fneg (Finite a) = Finite (- a)"
| "fneg PosInf = NegInf"
| "fneg NegInf = PosInf"
| "fneg NaN = NaN"

definition fsub :: "pyfloat \<Rightarrow> pyfloat \<Rightarrow> pyfloat" where
  "fsub x y = fadd x (fneg y)"

text \<open>Python's \<^verbatim>\<open><\<close> and \<^verbatim>\<open>==\<close> on floats: every comparison with NaN is false.\<close>

fun flt :: "pyfloat \<Rightarrow> pyfloat \<Rightarrow> bool" where
  "flt NaN _ = False"
| "flt _ NaN = False"
| "flt (Finite a) (Finite b) = (a < b)"
| "flt PosInf _ = False"
| "flt _ PosInf = True"
| "flt _ NegInf = False"
| "flt NegInf _ = True"

fun feq :: "pyfloat \<Rightarrow> pyfloat \<Rightarrow> bool" where
  "feq NaN _ = False"
| "feq _ NaN = False"
| "feq x y = (x = y)"

fun isnan :: "pyfloat \<Rightarrow> bool" where
  "isnan NaN = True"
| "isnan _ = False"

fun is_finite :: "pyfloat \<Rightarrow> bool" where
  "is_finite (Finite _) = True"
| "is_finite _ = False"

text \<open>\<^verbatim>\<open>x in [a, b, ...]\<close> on floats: some element compares equal to \<open>x\<close>.\<close>

definition py_in :: "pyfloat \<Rightarrow> pyfloat list \<Rightarrow> bool" where
  "py_in x xs = list_ex (feq x) xs"

text \<open>\<^verbatim>\<open>bool(x)\<close> of an optional float: \<^verbatim>\<open>None\<close> and zero are false, everything else
  (NaN and the infinities too) is true.\<close>

fun py_bool :: "pyfloat option \<Rightarrow> bool" where
  "py_bool None = False"
| "py_bool (Some (Finite a)) = (a \<noteq> 0)"
| "py_bool (Some _) = True"

text \<open>
  \<^verbatim>\<open>np.sum\<close> of the reward log.  NumPy makes the list an array of doubles and adds its
  pairwise sum to an accumulator that starts at zero.  The pairwise sum (the routine
  \<^verbatim>\<open>DOUBLE_pairwise_sum\<close> of NumPy's loops) of fewer than eight elements adds them from left
  to right.  Of up to 128 elements it keeps eight running sums, the \<open>j\<close>-th over the
  elements at the positions \<open>j\<close>, \<open>j + 8\<close>, \<open>j + 16\<close>, ... of the full blocks of eight,
  combines the eight as \<open>((r0 + r1) + (r2 + r3)) + ((r4 + r5) + (r6 + r7))\<close>, and adds the
  elements after the last full block from left to right.  A longer array is split at half
  its length, rounded down to a multiple of eight, and the pairwise sums of the two parts
  are added.
\<close>

fun add_blocks :: "pyfloat list \<Rightarrow> pyfloat list \<Rightarrow> pyfloat list" where
  "add_blocks r xs =
     (if length xs < 8 then r
      else add_blocks (map (\<lambda>(x, y). fadd x y) (zip r (take 8 xs))) (drop 8 xs))"

declare add_blocks.simps [simp del]

fun combine_blocks :: "pyfloat list \<Rightarrow> pyfloat" where
  "combine_blocks [r0, r1, r2, r3, r4, r5, r6, r7] =
     fadd (fadd (fadd r0 r1) (fadd r2 r3)) (fadd (fadd r4 r5) (fadd r6 r7))"
| "combine_blocks r = foldl fadd (Finite 0) r"

definition split_point :: "nat \<Rightarrow> nat" where
  "split_point n = n div 2 - (n div 2) mod 8"

function pairwise_sum :: "pyfloat list \<Rightarrow> pyfloat" where
  "pairwise_sum a =
     (if length a < 8 then foldl fadd (Finite 0) a
      else if length a \<le> 128 then
        foldl fadd
          (combine_blocks
             (add_blocks (take 8 a) (take (length a - length a mod 8 - 8) (drop 8 a))))
          (drop (length a - length a mod 8) a)
      else fadd (pairwise_sum (take (split_point (length a)) a))
                (pairwise_sum (drop (split_point (length a)) a)))"
  by pat_completeness auto
termination
  by (relation "measure length") (auto simp: split_point_def)

declare pairwise_sum.simps [simp del]

definition np_sum :: "pyfloat list \<Rightarrow> pyfloat" where
  "np_sum xs = fadd (Finite 0) (pairwise_sum xs)"

subsection \<open>Errors, tuples, strings and dictionaries\<close>

datatype error =
  IndexError | TypeError | KeyError | ValueError | AssertionError | NotImplementedError

text \<open>Indexing a tuple with an integer: a negative index counts from the end.\<close>

definition py_getitem :: "'a list \<Rightarrow> int \<Rightarrow> error + 'a" where
  "py_getitem xs i =
     (if 0 \<le> i \<and> i < int (length xs) then Inr (xs ! nat i)
      else if i < 0 \<and> - int (length xs) \<le> i then Inr (xs ! nat (int (length xs) + i))
      else Inl IndexError)"

text \<open>\<^verbatim>\<open>tuple.index(x)\<close>: the first position holding \<open>x\<close>, or a \<^verbatim>\<open>ValueError\<close>.\<close>

fun py_index :: "'a list \<Rightarrow> 'a \<Rightarrow> error + int" where
  "py_index [] x = Inl ValueError"
| "py_index (y # ys) x =
     (if y = x then Inr 0
      else case py_index ys x of Inl e \<Rightarrow> Inl e | Inr i \<Rightarrow> Inr (i + 1))"

text \<open>The slice \<^verbatim>\<open>s[start:stop]\<close> with integer bounds, negative ones counting from the end.\<close>

definition py_slice :: "'a list \<Rightarrow> int \<Rightarrow> int \<Rightarrow> 'a list" where
  "py_slice s start stop =
     (let n = int (length s);
          lo = (if start < 0 then max (n + start) 0 else min start n);
          hi = (if stop < 0 then max (n + stop) 0 else min stop n)
      in take (nat (hi - lo)) (drop (nat lo) s))"

text \<open>
  Modelled from the spec: the action-name constants of \<^verbatim>\<open>rl_habitat.habitat_constants\<close>
  (imported by the source, not part of it).  The spec's ActionSet lists six distinct names.
\<close>

datatype action_name = MOVE_AHEAD | ROTATE_LEFT | ROTATE_RIGHT | END | LOOK_UP | LOOK_DOWN

text \<open>
  The values that the dictionaries of the tasks hold.  \<open>PyRef name\<close> is the object that
  the task's attribute \<open>name\<close> holds, stored as that object and not as a copy of it: what
  a reader finds there is the content the attribute has when it is read.
\<close>

datatype py_value =
    PyNone
  | PyBool bool
  | PyInt int
  | PyFloat pyfloat
  | PyStr string
  | PyAction action_name
  | PyList "py_value list"
  | PyDict "(string \<times> py_value) list"
  | PyRef string

text \<open>A dictionary is an association list in insertion order; \<^verbatim>\<open>d[k] = v\<close> is
  \<^const>\<open>AList.update\<close> and a lookup is \<^const>\<open>map_of\<close>.\<close>

type_synonym py_dict = "(string \<times> py_value) list"

fun py_opt_bool :: "bool option \<Rightarrow> py_value" where
  "py_opt_bool None = PyNone"
| "py_opt_bool (Some b) = PyBool b"

section \<open>What a task reads from its collaborators\<close>

text \<open>
  The simulator, the sensors and the base class \<^verbatim>\<open>Task\<close> are outside the source.  Every
  call of a task method is given the values these collaborators answer with during that
  call.  Within one call the simulator is stepped at most once, before any of the values is
  read, so each of them is read from one simulator state.
\<close>

record 'obs world =
  w_distance_to_goal :: "pyfloat option"  \<comment> \<open>\<^verbatim>\<open>env.env.get_metrics()['distance_to_goal']\<close>\<close>
  w_spl :: "pyfloat option"  \<comment> \<open>\<^verbatim>\<open>env.env.get_metrics()['spl']\<close>\<close>
  w_last_action_success :: bool  \<comment> \<open>\<^verbatim>\<open>env.last_action_success\<close>\<close>
  w_episode_over :: bool  \<comment> \<open>\<^verbatim>\<open>env.env.episode_over\<close>\<close>
  w_is_done :: bool  \<comment> \<open>\<^verbatim>\<open>Task.is_done()\<close>\<close>
  w_num_steps_taken :: int  \<comment> \<open>\<^verbatim>\<open>Task.num_steps_taken()\<close>\<close>
  w_observations_before :: 'obs  \<comment> \<open>\<^verbatim>\<open>get_observations()\<close> before \<^verbatim>\<open>env.step\<close>\<close>
  w_observations :: 'obs  \<comment> \<open>\<^verbatim>\<open>get_observations()\<close> after \<^verbatim>\<open>env.step\<close>\<close>

record 'img frame =
  frame_rgb :: 'img  \<comment> \<open>\<^verbatim>\<open>env.current_frame['rgb']\<close>\<close>
  frame_depth :: 'img  \<comment> \<open>\<^verbatim>\<open>env.current_frame['depth']\<close>\<close>

text \<open>The pose sensor's reading, a 4-tuple: x, y, height, heading in degrees.\<close>

type_synonym pose = "pyfloat \<times> pyfloat \<times> pyfloat \<times> pyfloat"

record 's observations =
  agent_position_and_rotation :: pose
  other_sensors :: 's

record 'obs step_result =
  observation :: 'obs
  reward :: pyfloat
  done_flag :: bool  \<comment> \<open>the source's \<^verbatim>\<open>done\<close>\<close>
  info :: py_dict

section \<open>Task state\<close>

text \<open>The fields that \<^verbatim>\<open>PointNavTask\<close> and \<^verbatim>\<open>ObjectNavTask\<close> both declare.\<close>

record nav_task =
  took_end_action :: bool
  success :: bool
  last_geodesic_distance :: pyfloat
  rewards :: "pyfloat list"
  last_action_success :: "bool option"
  task_info :: py_dict

text \<open>\<^verbatim>\<open>ObjectNavTask\<close> adds the fields of \<^verbatim>\<open>HabitatTask\<close> and its own.\<close>

record object_nav_task = nav_task +
  last_action :: "action_name option"
  last_action_ind :: "int option"
  actions_taken :: "action_name list"
  positions :: "(string \<times> pyfloat) list list"
  episode_id :: string
  min_distance_to_goal :: pyfloat
  num_invalid_actions :: int

section \<open>Shared pieces\<close>

text \<open>
  The guard that the source writes out four times:
  \<^verbatim>\<open>if d is None or d in [float('-inf'), float('inf')] or np.isnan(d): d = fallback\<close>.
\<close>

definition guarded_distance :: "pyfloat option \<Rightarrow> pyfloat \<Rightarrow> pyfloat" where
  "guarded_distance d fallback =
     (case d of
        None \<Rightarrow> fallback
      | Some x \<Rightarrow> if py_in x [NegInf, PosInf] \<or> isnan x then fallback else x)"

text \<open>\<^verbatim>\<open>_is_goal_in_range\<close>, the same in both classes: \<^verbatim>\<open>bool(get_metrics()['spl'])\<close>.\<close>

definition is_goal_in_range :: "'obs world \<Rightarrow> bool" where
  "is_goal_in_range w = py_bool (w_spl w)"

definition reached_terminal_state :: "'obs world \<Rightarrow> bool" where
  "reached_terminal_state w = w_episode_over w"

text \<open>\<^verbatim>\<open>min(a, b)\<close> keeps \<open>a\<close> unless \<open>b < a\<close>; comparing with \<^verbatim>\<open>None\<close> is a \<^verbatim>\<open>TypeError\<close>.\<close>

definition py_min :: "pyfloat option \<Rightarrow> pyfloat \<Rightarrow> error + pyfloat" where
  "py_min a b = (case a of None \<Rightarrow> Inl TypeError | Some x \<Rightarrow> Inr (if flt b x then b else x))"

section \<open>PointNavTask\<close>

definition PointNavTask_actions :: "action_name list" where
  "PointNavTask_actions = [MOVE_AHEAD, ROTATE_LEFT, ROTATE_RIGHT, END]"

definition PointNavTask_init :: "pyfloat option \<Rightarrow> py_dict \<Rightarrow> nav_task" where
  "PointNavTask_init d0 ti =
     \<lparr> took_end_action = False,
       success = False,
       last_geodesic_distance = guarded_distance d0 (py_float 0),
       rewards = [],
       last_action_success = None,
       task_info = ti \<rparr>"

text \<open>\<^verbatim>\<open>judge\<close> returns the reward and the updated task.\<close>

definition PointNavTask_judge :: "nav_task \<Rightarrow> 'obs world \<Rightarrow> pyfloat \<times> nav_task" where
  "PointNavTask_judge s w =
     (let reward0 = fneg (py_float (1 / 100));
          new_geodesic_distance = guarded_distance (w_distance_to_goal w) (last_geodesic_distance s);
          delta_distance_reward = fsub (last_geodesic_distance s) new_geodesic_distance;
          reward1 = fadd reward0 delta_distance_reward;
          s1 = s\<lparr>last_geodesic_distance := new_geodesic_distance\<rparr>;
          reward2 = (if took_end_action s1
                     then fadd reward1 (if success s1 then py_float 10 else py_float 0)
                     else reward1)
      in (reward2, s1\<lparr>rewards := rewards s1 @ [reward2]\<rparr>))"

text \<open>\<^verbatim>\<open>_step\<close> returns the step result, or the exception raised, and the task as the call
  leaves it.\<close>

definition PointNavTask_step ::
  "nav_task \<Rightarrow> int \<Rightarrow> 'obs world \<Rightarrow> (error + 'obs step_result) \<times> nav_task" where
  "PointNavTask_step s action w =
     (case py_getitem PointNavTask_actions action of
        Inl e \<Rightarrow> (Inl e, s)
      | Inr action_str \<Rightarrow>
          let s1 = (if action_str = END
                    then let s' = s\<lparr>took_end_action := True\<rparr>;
                             s'' = s'\<lparr>success := is_goal_in_range w\<rparr>
                         in s''\<lparr>last_action_success := Some (success s'')\<rparr>
                    else s\<lparr>last_action_success := Some (w_last_action_success w)\<rparr>);
              (r, s2) = PointNavTask_judge s1 w
          in (Inr \<lparr> observation = w_observations w,
                    reward = r,
                    done_flag = w_is_done w,
                    info = [(''last_action_success'', py_opt_bool (last_action_success s2))] \<rparr>,
              s2))"

definition PointNavTask_render :: "string \<Rightarrow> 'img frame \<Rightarrow> error + 'img" where
  "PointNavTask_render mode fr =
     (if mode \<in> set [''rgb'', ''depth''] then Inr (frame_rgb fr) else Inl AssertionError)"

definition PointNavTask_metrics :: "nav_task \<Rightarrow> 'obs world \<Rightarrow> py_dict \<times> nav_task" where
  "PointNavTask_metrics s w =
     (if \<not> w_is_done w then ([], s)
      else
        let metrics =
              [(''success'', PyBool (success s)),
               (''ep_length'', PyInt (w_num_steps_taken w)),
               (''total_reward'', PyFloat (np_sum (rewards s))),
               (''spl'', case w_spl w of Some v \<Rightarrow> PyFloat v | None \<Rightarrow> PyFloat (py_float 0))]
        in (metrics, s\<lparr>rewards := []\<rparr>))"

text \<open>
  The shortest-path follower is an external object with its own state: \<open>follower f target\<close>
  is what \<^verbatim>\<open>get_next_action(target)\<close> answers in follower state \<open>f\<close>, with the state the
  call leaves.  \<^verbatim>\<open>query_expert\<close> returns its pair, or the exception, and the follower state.
\<close>

definition PointNavTask_query_expert ::
  "nav_task \<Rightarrow> 'obs world \<Rightarrow> ('f \<Rightarrow> py_value \<Rightarrow> int option \<times> 'f) \<Rightarrow> 'f
     \<Rightarrow> (error + int option \<times> bool) \<times> 'f" where
  "PointNavTask_query_expert s w follower f =
     (if is_goal_in_range w
      then (case py_index PointNavTask_actions END of
              Inl e \<Rightarrow> (Inl e, f)
            | Inr i \<Rightarrow> (Inr (Some i, True), f))
      else (case map_of (task_info s) ''target'' of
              None \<Rightarrow> (Inl KeyError, f)
            | Some target \<Rightarrow>
                let (action, f') = follower f target
                in (Inr (action, action \<noteq> None), f')))"

section \<open>HabitatTask\<close>

text \<open>\<^verbatim>\<open>__init__\<close> computes the identifier under which the episode is stored:
  \<^verbatim>\<open>ep.scene_id[-15:-4] + "_" + ep.episode_id\<close>.\<close>

definition HabitatTask_episode_id :: "string \<Rightarrow> string \<Rightarrow> string" where
  "HabitatTask_episode_id scene_id ep_id = py_slice scene_id (- 15) (- 4) @ ''_'' @ ep_id"

definition HabitatTask_render :: "string \<Rightarrow> 'img frame \<Rightarrow> error + 'img" where
  "HabitatTask_render mode fr =
     (if mode = ''rgb'' then Inr (frame_rgb fr)
      else if mode = ''depth'' then Inr (frame_depth fr)
      else Inl NotImplementedError)"

text \<open>
  \<^verbatim>\<open>HabitatTask._step\<close> wraps \<^verbatim>\<open>Task.step\<close> of the base class, which is outside the source
  and is taken as the parameter \<open>base_step\<close>; \<open>names\<close> is the subclass's action tuple.
  \<^verbatim>\<open>ObjectNavTask\<close> overrides \<^verbatim>\<open>_step\<close> and does not call this one.
\<close>

definition HabitatTask_step ::
  "action_name list
     \<Rightarrow> (object_nav_task \<Rightarrow> int \<Rightarrow> (error + 'obs step_result) \<times> object_nav_task)
     \<Rightarrow> object_nav_task \<Rightarrow> int \<Rightarrow> (error + 'obs step_result) \<times> object_nav_task" where
  "HabitatTask_step names base_step s action =
     (let s1 = s\<lparr>last_action_ind := Some action\<rparr>
      in case py_getitem names action of
           Inl e \<Rightarrow> (Inl e, s1)
         | Inr name \<Rightarrow>
             let s2 = s1\<lparr>last_action := Some name\<rparr>;
                 s3 = s2\<lparr>last_action_success := None\<rparr>
             in case base_step s3 action of
                  (Inl e, s4) \<Rightarrow> (Inl e, s4)
                | (Inr step_result, s4) \<Rightarrow>
                    let info1 = AList.update ''action''
                                  (case last_action_ind s4 of None \<Rightarrow> PyNone | Some i \<Rightarrow> PyInt i)
                                  (info step_result);
                        info2 = AList.update ''action_success''
                                  (py_opt_bool (last_action_success s4)) info1
                    in (Inr (step_result\<lparr>info := info2\<rparr>), s4))"

section \<open>ObjectNavTask\<close>

definition ObjectNavTask_actions :: "action_name list" where
  "ObjectNavTask_actions = [MOVE_AHEAD, ROTATE_LEFT, ROTATE_RIGHT, END, LOOK_UP, LOOK_DOWN]"

definition ObjectNavTask_init ::
  "pyfloat option \<Rightarrow> py_dict \<Rightarrow> string \<Rightarrow> string \<Rightarrow> object_nav_task" where
  "ObjectNavTask_init d0 ti scene_id ep_id =
     (let lgd = guarded_distance d0 (py_float 0)
      in \<lparr> took_end_action = False,
           success = False,
           last_geodesic_distance = lgd,
           rewards = [],
           last_action_success = None,
           task_info = ti,
           last_action = None,
           last_action_ind = None,
           actions_taken = [],
           positions = [],
           episode_id = HabitatTask_episode_id scene_id ep_id,
           min_distance_to_goal = lgd,
           num_invalid_actions = 0 \<rparr>)"

text \<open>\<^verbatim>\<open>judge\<close> takes the running minimum from the reading as it comes, before the guard;
  \<^verbatim>\<open>min\<close> raises on \<^verbatim>\<open>None\<close>, and then nothing has been assigned.\<close>

definition ObjectNavTask_judge ::
  "object_nav_task \<Rightarrow> 'obs world \<Rightarrow> (error + pyfloat) \<times> object_nav_task" where
  "ObjectNavTask_judge s w =
     (let reward0 = fneg (py_float (1 / 100))
      in case py_min (w_distance_to_goal w) (min_distance_to_goal s) of
           Inl e \<Rightarrow> (Inl e, s)
         | Inr m \<Rightarrow>
             let s1 = s\<lparr>min_distance_to_goal := m\<rparr>;
                 new_geodesic_distance =
                   guarded_distance (w_distance_to_goal w) (last_geodesic_distance s1);
                 delta_distance_reward = fsub (last_geodesic_distance s1) new_geodesic_distance;
                 reward1 = fadd reward0 delta_distance_reward;
                 reward2 = (if took_end_action s1
                            then fadd reward1 (if success s1 then py_float 10 else py_float 0)
                            else reward1);
                 s2 = s1\<lparr>rewards := rewards s1 @ [reward2]\<rparr>
             in (Inr reward2, s2\<lparr>last_geodesic_distance := new_geodesic_distance\<rparr>))"

text \<open>\<^verbatim>\<open>np.all(old_pos == new_pos)\<close> on two pose readings.\<close>

fun pose_all_equal :: "pose \<Rightarrow> pose \<Rightarrow> bool" where
  "pose_all_equal (a0, a1, a2, a3) (b0, b1, b2, b3) =
     (feq a0 b0 \<and> feq a1 b1 \<and> feq a2 b2 \<and> feq a3 b3)"

fun position_entry :: "pose \<Rightarrow> (string \<times> pyfloat) list" where
  "position_entry (p0, p1, p2, p3) = [(''x'', p0), (''y'', p1), (''path_to_rot_degrees'', p3)]"

definition ObjectNavTask_step ::
  "object_nav_task \<Rightarrow> int \<Rightarrow> ('s observations) world
     \<Rightarrow> (error + ('s observations) step_result) \<times> object_nav_task" where
  "ObjectNavTask_step s action w =
     (let pos = agent_position_and_rotation (w_observations_before w);
          s0 = s\<lparr>positions := positions s @ [position_entry pos]\<rparr>;
          old_pos = agent_position_and_rotation (w_observations_before w)
      in case py_getitem ObjectNavTask_actions action of
           Inl e \<Rightarrow> (Inl e, s0)
         | Inr action_str \<Rightarrow>
             let s1 = s0\<lparr>actions_taken := actions_taken s0 @ [action_str]\<rparr>;
                 s2 = (if action_str = END
                       then let s' = s1\<lparr>took_end_action := True\<rparr>;
                                s'' = s'\<lparr>success := is_goal_in_range w\<rparr>
                            in s''\<lparr>last_action_success := Some (success s'')\<rparr>
                       else s1\<lparr>last_action_success := Some (w_last_action_success w)\<rparr>)
             in case ObjectNavTask_judge s2 w of
                  (Inl e, s3) \<Rightarrow> (Inl e, s3)
                | (Inr r, s3) \<Rightarrow>
                    let step_result =
                          \<lparr> observation = w_observations w,
                            reward = r,
                            done_flag = w_is_done w,
                            info = [(''last_action_success'',
                                     py_opt_bool (last_action_success s3))] \<rparr>;
                        new_pos = agent_position_and_rotation (w_observations w);
                        s4 = (if pose_all_equal old_pos new_pos
                              then s3\<lparr>num_invalid_actions := num_invalid_actions s3 + 1\<rparr>
                              else s3)
                    in (Inr step_result, s4))"

definition ObjectNavTask_render :: "string \<Rightarrow> 'img frame \<Rightarrow> error + 'img" where
  "ObjectNavTask_render mode fr =
     (if mode \<in> set [''rgb'', ''depth''] then Inr (frame_rgb fr) else Inl AssertionError)"

text \<open>
  \<^verbatim>\<open>metrics\<close> stores the two logs in \<open>task_info\<close> as the list objects themselves, and
  returns \<open>task_info\<close> as the dictionary object itself: later appends show through.  The
  action tuple and the identifier are immutable and stored by value.
\<close>

definition ObjectNavTask_metrics ::
  "object_nav_task \<Rightarrow> 'obs world \<Rightarrow> py_dict \<times> object_nav_task" where
  "ObjectNavTask_metrics s w =
     (let ti1 = AList.update ''taken_actions'' (PyRef ''_actions_taken'') (task_info s);
          ti2 = AList.update ''action_names'' (PyList (map PyAction ObjectNavTask_actions)) ti1;
          ti3 = AList.update ''followed_path'' (PyRef ''_positions'') ti2;
          ti4 = AList.update ''episode_id'' (PyStr (episode_id s)) ti3;
          s1 = s\<lparr>task_info := ti4\<rparr>
      in if \<not> w_is_done w then ([], s1)
         else
           let metrics =
                 [(''success'', PyBool (success s1)),
                  (''ep_length'', PyInt (w_num_steps_taken w)),
                  (''total_reward'', PyFloat (np_sum (rewards s1))),
                  (''spl'', case w_spl w of Some v \<Rightarrow> PyFloat v | None \<Rightarrow> PyFloat (py_float 0)),
                  (''min_distance_to_target'', PyFloat (min_distance_to_goal s1)),
                  (''num_invalid_actions'', PyInt (num_invalid_actions s1)),
                  (''task_info'', PyRef ''task_info'')]
           in (metrics, s1\<lparr>rewards := []\<rparr>))"

text \<open>What the object behind a \<open>PyRef\<close> of an \<^verbatim>\<open>ObjectNavTask\<close> holds in the task \<open>s\<close>.\<close>

definition ObjectNavTask_attr :: "object_nav_task \<Rightarrow> string \<Rightarrow> py_value" where
  "ObjectNavTask_attr s name =
     (if name = ''_actions_taken'' then PyList (map PyAction (actions_taken s))
      else if name = ''_positions''
        then PyList (map (\<lambda>d. PyDict (map (\<lambda>(k, v). (k, PyFloat v)) d)) (positions s))
      else if name = ''task_info'' then PyDict (task_info s)
      else PyNone)"

definition ObjectNavTask_query_expert ::
  "object_nav_task \<Rightarrow> 'obs world \<Rightarrow> ('f \<Rightarrow> py_value \<Rightarrow> int option \<times> 'f) \<Rightarrow> 'f
     \<Rightarrow> (error + int option \<times> bool) \<times> 'f" where
  "ObjectNavTask_query_expert s w follower f =
     (if is_goal_in_range w
      then (case py_index ObjectNavTask_actions END of
              Inl e \<Rightarrow> (Inl e, f)
            | Inr i \<Rightarrow> (Inr (Some i, True), f))
      else (case map_of (task_info s) ''target'' of
              None \<Rightarrow> (Inl KeyError, f)
            | Some target \<Rightarrow>
                let (action, f') = follower f target
                in (Inr (action, action \<noteq> None), f')))"

section \<open>Episodes\<close>

text \<open>
  An episode is a sequence of calls of the two methods that change a task, each with the
  values the collaborators answer with.  A call that raises leaves the task as it was at
  the raise, and the driver may go on calling.
\<close>

datatype 'obs call = Step int "'obs world" | Metrics "'obs world"

fun PointNavTask_call :: "nav_task \<Rightarrow> 'obs call \<Rightarrow> nav_task" where
  "PointNavTask_call s (Step a w) = snd (PointNavTask_step s a w)"
| "PointNavTask_call s (Metrics w) = snd (PointNavTask_metrics s w)"

definition PointNavTask_run :: "nav_task \<Rightarrow> 'obs call list \<Rightarrow> nav_task" where
  "PointNavTask_run s cs = foldl PointNavTask_call s cs"

fun ObjectNavTask_call :: "object_nav_task \<Rightarrow> ('s observations) call \<Rightarrow> object_nav_task" where
  "ObjectNavTask_call s (Step a w) = snd (ObjectNavTask_step s a w)"
| "ObjectNavTask_call s (Metrics w) = snd (ObjectNavTask_metrics s w)"

definition ObjectNavTask_run ::
  "object_nav_task \<Rightarrow> ('s observations) call list \<Rightarrow> object_nav_task" where
  "ObjectNavTask_run s cs = foldl ObjectNavTask_call s cs"

section \<open>Auxiliary definitions\<close>

text \<open>The task after the part of \<^verbatim>\<open>_step\<close> that precedes \<^verbatim>\<open>judge\<close>, for an action index
  that resolves to \<open>name\<close>, and the counting of an unchanged pose that follows it.\<close>

definition PointNavTask_pre :: "nav_task \<Rightarrow> action_name \<Rightarrow> 'obs world \<Rightarrow> nav_task" where
  "PointNavTask_pre s name w =
     (if name = END
      then s\<lparr>took_end_action := True, success := is_goal_in_range w,
             last_action_success := Some (is_goal_in_range w)\<rparr>
      else s\<lparr>last_action_success := Some (w_last_action_success w)\<rparr>)"

definition ObjectNavTask_pre ::
  "object_nav_task \<Rightarrow> action_name \<Rightarrow> ('s observations) world \<Rightarrow> object_nav_task" where
  "ObjectNavTask_pre s name w =
     (let s1 = s\<lparr>positions := positions s
                    @ [position_entry (agent_position_and_rotation (w_observations_before w))],
                  actions_taken := actions_taken s @ [name]\<rparr>
      in if name = END
         then s1\<lparr>took_end_action := True, success := is_goal_in_range w,
                 last_action_success := Some (is_goal_in_range w)\<rparr>
         else s1\<lparr>last_action_success := Some (w_last_action_success w)\<rparr>)"

definition ObjectNavTask_post ::
  "object_nav_task \<Rightarrow> ('s observations) world \<Rightarrow> object_nav_task" where
  "ObjectNavTask_post s w =
     (if pose_all_equal (agent_position_and_rotation (w_observations_before w))
           (agent_position_and_rotation (w_observations w))
      then s\<lparr>num_invalid_actions := num_invalid_actions s + 1\<rparr> else s)"

text \<open>Concrete collaborators for the examples: every value not given is fixed.\<close>

definition example_world :: "'obs \<Rightarrow> pyfloat option \<Rightarrow> pyfloat option \<Rightarrow> bool \<Rightarrow> 'obs world" where
  "example_world obs d sp dn =
     \<lparr> w_distance_to_goal = d, w_spl = sp, w_last_action_success = True,
       w_episode_over = dn, w_is_done = dn, w_num_steps_taken = 0,
       w_observations_before = obs, w_observations = obs \<rparr>"

definition example_pose :: "unit observations" where
  "example_pose =
     \<lparr> agent_position_and_rotation = (Finite 0, Finite 0, Finite 0, Finite 0),
       other_sensors = () \<rparr>"

text \<open>The rewards returned by a sequence of steps, in order; a step that raises returns none.\<close>

fun PointNavTask_returned :: "nav_task \<Rightarrow> (int \<times> 'obs world) list \<Rightarrow> pyfloat list" where
  "PointNavTask_returned s [] = []"
| "PointNavTask_returned s ((a, w) # xs) =
     (case PointNavTask_step s a w of
        (Inl e, s') \<Rightarrow> PointNavTask_returned s' xs
      | (Inr r, s') \<Rightarrow> reward r # PointNavTask_returned s' xs)"


text \<open>A follower for the examples: it counts its calls and has no move to offer.\<close>

definition example_follower :: "nat \<Rightarrow> py_value \<Rightarrow> int option \<times> nat" where
  "example_follower n target = (None, Suc n)"

text \<open>The spec's reading of the identifier, in its words: the scene path truncated to its
  filename stem (the part after the last \<open>/\<close>, without the extension that starts at its
  last \<open>.\<close>), an underscore, and the episode id.\<close>

definition spec_filename_stem :: "string \<Rightarrow> string" where
  "spec_filename_stem p =
     (let b = rev (takeWhile (\<lambda>c. c \<noteq> CHR ''/'') (rev p))
      in if CHR ''.'' \<in> set b then rev (tl (dropWhile (\<lambda>c. c \<noteq> CHR ''.'') (rev b))) else b)"

definition spec_episode_id :: "string \<Rightarrow> string \<Rightarrow> string" where
  "spec_episode_id scene_id ep_id = spec_filename_stem scene_id @ ''_'' @ ep_id"

text \<open>Python's \<^verbatim>\<open><=\<close> on floats.\<close>

fun fle :: "pyfloat \<Rightarrow> pyfloat \<Rightarrow> bool" where
  "fle NaN _ = False"
| "fle _ NaN = False"
| "fle (Finite a) (Finite b) = (a \<le> b)"
| "fle NegInf _ = True"
| "fle _ PosInf = True"
| "fle _ _ = False"

text \<open>The raw distance readings that \<^verbatim>\<open>ObjectNavTask.judge\<close> has read in a sequence of calls:
  one for each step whose action index is in range.\<close>

fun seen_readings :: "('s observations) call list \<Rightarrow> pyfloat option list" where
  "seen_readings [] = []"
| "seen_readings (Step a w # cs) =
     (case py_getitem ObjectNavTask_actions a of
        Inl e \<Rightarrow> seen_readings cs
      | Inr name \<Rightarrow> w_distance_to_goal w # seen_readings cs)"
| "seen_readings (Metrics w # cs) = seen_readings cs"

text \<open>A call that takes the \<^verbatim>\<open>end\<close> action of the action tuple \<open>names\<close>.\<close>

fun ends_episode :: "action_name list \<Rightarrow> 'obs call \<Rightarrow> bool" where
  "ends_episode names (Step a w) = (py_getitem names a = Inr END)"
| "ends_episode names (Metrics w) = False"

section \<open>Basic facts\<close>

lemma py_float_zero: "py_float 0 = Finite 0"
  by (simp add: py_float_def round_double_def)

lemma guarded_distance_invalid:
  "d \<in> {None, Some NaN, Some PosInf, Some NegInf} \<Longrightarrow> guarded_distance d fb = fb"
  by (auto simp: guarded_distance_def py_in_def)

lemma guarded_distance_finite: "is_finite fb \<Longrightarrow> is_finite (guarded_distance d fb)"
  by (cases d; cases "the d") (auto simp: guarded_distance_def py_in_def)

lemma guarded_distance_valid:
  "guarded_distance (Some (Finite q)) fb = Finite q"
  by (simp add: guarded_distance_def py_in_def)

lemma PointNavTask_judge_fields:
  "last_geodesic_distance (snd (PointNavTask_judge s w)) =
     guarded_distance (w_distance_to_goal w) (last_geodesic_distance s)"
  "took_end_action (snd (PointNavTask_judge s w)) = took_end_action s"
  "success (snd (PointNavTask_judge s w)) = success s"
  "last_action_success (snd (PointNavTask_judge s w)) = last_action_success s"
  "task_info (snd (PointNavTask_judge s w)) = task_info s"
  "rewards (snd (PointNavTask_judge s w)) = rewards s @ [fst (PointNavTask_judge s w)]"
  by (simp_all add: PointNavTask_judge_def Let_def)

lemma PointNavTask_judge_reward:
  "fst (PointNavTask_judge s w) =
     (let base = fadd (fneg (py_float (1 / 100)))
                   (fsub (last_geodesic_distance s)
                      (guarded_distance (w_distance_to_goal w) (last_geodesic_distance s)))
      in if took_end_action s then fadd base (if success s then py_float 10 else py_float 0)
         else base)"
  by (simp add: PointNavTask_judge_def Let_def)

lemma PointNavTask_step_raises:
  "py_getitem PointNavTask_actions a = Inl e \<Longrightarrow> PointNavTask_step s a w = (Inl e, s)"
  by (simp add: PointNavTask_step_def)

lemma PointNavTask_step_returns:
  "py_getitem PointNavTask_actions a = Inr name \<Longrightarrow>
   PointNavTask_step s a w =
     (Inr \<lparr> observation = w_observations w,
            reward = fst (PointNavTask_judge (PointNavTask_pre s name w) w),
            done_flag = w_is_done w,
            info = [(''last_action_success'',
                     py_opt_bool (last_action_success (PointNavTask_pre s name w)))] \<rparr>,
      snd (PointNavTask_judge (PointNavTask_pre s name w) w))"
  by (simp add: PointNavTask_step_def PointNavTask_pre_def Let_def split_beta
        PointNavTask_judge_fields)

lemma py_getitem_PointNav_3: "py_getitem PointNavTask_actions 3 = Inr END"
  by (simp add: py_getitem_def PointNavTask_actions_def)

lemma ObjectNavTask_judge_raises:
  "w_distance_to_goal w = None \<Longrightarrow> ObjectNavTask_judge s w = (Inl TypeError, s)"
  by (simp add: ObjectNavTask_judge_def py_min_def)

lemma ObjectNavTask_judge_returns:
  "w_distance_to_goal w = Some x \<Longrightarrow>
   ObjectNavTask_judge s w =
     (let new = guarded_distance (Some x) (last_geodesic_distance s);
          base = fadd (fneg (py_float (1 / 100))) (fsub (last_geodesic_distance s) new);
          r = (if took_end_action s then fadd base (if success s then py_float 10 else py_float 0)
               else base)
      in (Inr r,
          s\<lparr>min_distance_to_goal := (if flt (min_distance_to_goal s) x
                                      then min_distance_to_goal s else x),
            rewards := rewards s @ [r],
            last_geodesic_distance := new\<rparr>))"
  by (simp add: ObjectNavTask_judge_def py_min_def Let_def)

lemma ObjectNavTask_judge_lgd:
  "last_geodesic_distance (snd (ObjectNavTask_judge s w)) =
     (case w_distance_to_goal w of None \<Rightarrow> last_geodesic_distance s
      | Some x \<Rightarrow> guarded_distance (Some x) (last_geodesic_distance s))"
  by (cases "w_distance_to_goal w")
     (simp_all add: ObjectNavTask_judge_raises ObjectNavTask_judge_returns Let_def)

lemma ObjectNavTask_judge_keeps:
  "took_end_action (snd (ObjectNavTask_judge s w)) = took_end_action s"
  "success (snd (ObjectNavTask_judge s w)) = success s"
  "last_action_success (snd (ObjectNavTask_judge s w)) = last_action_success s"
  by (cases "w_distance_to_goal w";
      simp add: ObjectNavTask_judge_raises ObjectNavTask_judge_returns Let_def)+

lemma ObjectNavTask_step_index_error:
  "py_getitem ObjectNavTask_actions a = Inl e \<Longrightarrow>
   ObjectNavTask_step s a w =
     (Inl e, s\<lparr>positions := positions s
                @ [position_entry (agent_position_and_rotation (w_observations_before w))]\<rparr>)"
  by (simp add: ObjectNavTask_step_def Let_def)

lemma ObjectNavTask_step_type_error:
  "py_getitem ObjectNavTask_actions a = Inr name \<Longrightarrow> w_distance_to_goal w = None \<Longrightarrow>
   ObjectNavTask_step s a w = (Inl TypeError, ObjectNavTask_pre s name w)"
  by (simp add: ObjectNavTask_step_def ObjectNavTask_pre_def Let_def ObjectNavTask_judge_raises)

lemma ObjectNavTask_step_returns:
  "py_getitem ObjectNavTask_actions a = Inr name \<Longrightarrow> w_distance_to_goal w = Some x \<Longrightarrow>
   ObjectNavTask_step s a w =
     (case ObjectNavTask_judge (ObjectNavTask_pre s name w) w of
        (res, s3) \<Rightarrow>
          (Inr \<lparr> observation = w_observations w,
                 reward = (case res of Inr r \<Rightarrow> r | Inl _ \<Rightarrow> NaN),
                 done_flag = w_is_done w,
                 info = [(''last_action_success'',
                          py_opt_bool (last_action_success (ObjectNavTask_pre s name w)))] \<rparr>,
           ObjectNavTask_post s3 w))"
  by (simp add: ObjectNavTask_step_def ObjectNavTask_pre_def ObjectNavTask_post_def Let_def
        ObjectNavTask_judge_returns)


lemma py_getitem_ObjectNav_3: "py_getitem ObjectNavTask_actions 3 = Inr END"
  by (simp add: py_getitem_def ObjectNavTask_actions_def)

lemma PointNavTask_step_took_end:
  "took_end_action (snd (PointNavTask_step s a w)) =
     (took_end_action s \<or> py_getitem PointNavTask_actions a = Inr END)"
  by (cases "py_getitem PointNavTask_actions a")
     (auto simp: PointNavTask_step_raises PointNavTask_step_returns PointNavTask_judge_fields
        PointNavTask_pre_def)

lemma PointNavTask_step_lgd:
  "last_geodesic_distance (snd (PointNavTask_step s a w)) =
     (case py_getitem PointNavTask_actions a of
        Inl e \<Rightarrow> last_geodesic_distance s
      | Inr name \<Rightarrow> guarded_distance (w_distance_to_goal w) (last_geodesic_distance s))"
  by (cases "py_getitem PointNavTask_actions a")
     (auto simp: PointNavTask_step_raises PointNavTask_step_returns PointNavTask_judge_fields
        PointNavTask_pre_def)

lemma PointNavTask_metrics_keeps:
  "took_end_action (snd (PointNavTask_metrics s w)) = took_end_action s"
  "last_geodesic_distance (snd (PointNavTask_metrics s w)) = last_geodesic_distance s"
  by (simp_all add: PointNavTask_metrics_def Let_def)

lemma PointNavTask_run_took_end:
  "took_end_action s \<Longrightarrow> took_end_action (PointNavTask_run s cs)"
  unfolding PointNavTask_run_def
proof (induction cs arbitrary: s)
  case Nil
  then show ?case by simp
next
  case (Cons c cs)
  have "took_end_action (PointNavTask_call s c)"
    using Cons.prems by (cases c) (simp_all add: PointNavTask_step_took_end PointNavTask_metrics_keeps)
  then show ?case using Cons.IH by simp
qed

lemma PointNavTask_run_finite:
  "is_finite (last_geodesic_distance s) \<Longrightarrow>
   is_finite (last_geodesic_distance (PointNavTask_run s cs))"
  unfolding PointNavTask_run_def
proof (induction cs arbitrary: s)
  case Nil
  then show ?case by simp
next
  case (Cons c cs)
  have "is_finite (last_geodesic_distance (PointNavTask_call s c))"
    using Cons.prems
    by (cases c)
       (auto simp: PointNavTask_step_lgd PointNavTask_metrics_keeps guarded_distance_finite
          split: sum.splits)
  then show ?case using Cons.IH by simp
qed

lemma ObjectNavTask_pre_fields:
  "took_end_action (ObjectNavTask_pre s name w) = (took_end_action s \<or> name = END)"
  "last_geodesic_distance (ObjectNavTask_pre s name w) = last_geodesic_distance s"
  "min_distance_to_goal (ObjectNavTask_pre s name w) = min_distance_to_goal s"
  "rewards (ObjectNavTask_pre s name w) = rewards s"
  "success (ObjectNavTask_pre s name w) = (if name = END then is_goal_in_range w else success s)"
  "last_action_success (ObjectNavTask_pre s name w) =
     Some (if name = END then is_goal_in_range w else w_last_action_success w)"
  by (simp_all add: ObjectNavTask_pre_def Let_def)

lemma ObjectNavTask_post_fields:
  "took_end_action (ObjectNavTask_post s w) = took_end_action s"
  "last_geodesic_distance (ObjectNavTask_post s w) = last_geodesic_distance s"
  "min_distance_to_goal (ObjectNavTask_post s w) = min_distance_to_goal s"
  "rewards (ObjectNavTask_post s w) = rewards s"
  "success (ObjectNavTask_post s w) = success s"
  "last_action_success (ObjectNavTask_post s w) = last_action_success s"
  by (simp_all add: ObjectNavTask_post_def)

lemma ObjectNavTask_step_took_end:
  "took_end_action (snd (ObjectNavTask_step s a w)) =
     (took_end_action s \<or> py_getitem ObjectNavTask_actions a = Inr END)"
proof (cases "py_getitem ObjectNavTask_actions a")
  case (Inl e)
  then show ?thesis by (simp add: ObjectNavTask_step_index_error)
next
  case (Inr name)
  then show ?thesis
    by (cases "w_distance_to_goal w")
       (auto simp: ObjectNavTask_step_type_error ObjectNavTask_step_returns
          ObjectNavTask_pre_fields ObjectNavTask_post_fields ObjectNavTask_judge_returns Let_def)
qed

lemma ObjectNavTask_step_lgd:
  "last_geodesic_distance (snd (ObjectNavTask_step s a w)) =
     (case py_getitem ObjectNavTask_actions a of
        Inl e \<Rightarrow> last_geodesic_distance s
      | Inr name \<Rightarrow> guarded_distance (w_distance_to_goal w) (last_geodesic_distance s))"
proof (cases "py_getitem ObjectNavTask_actions a")
  case (Inl e)
  then show ?thesis by (simp add: ObjectNavTask_step_index_error)
next
  case (Inr name)
  then show ?thesis
    by (cases "w_distance_to_goal w")
       (auto simp: ObjectNavTask_step_type_error ObjectNavTask_step_returns
          ObjectNavTask_pre_fields ObjectNavTask_post_fields ObjectNavTask_judge_returns Let_def
          guarded_distance_def)
qed

lemma ObjectNavTask_metrics_keeps:
  "took_end_action (snd (ObjectNavTask_metrics s w)) = took_end_action s"
  "last_geodesic_distance (snd (ObjectNavTask_metrics s w)) = last_geodesic_distance s"
  "min_distance_to_goal (snd (ObjectNavTask_metrics s w)) = min_distance_to_goal s"
  by (simp_all add: ObjectNavTask_metrics_def Let_def)

lemma ObjectNavTask_run_took_end:
  "took_end_action s \<Longrightarrow> took_end_action (ObjectNavTask_run s cs)"
  unfolding ObjectNavTask_run_def
proof (induction cs arbitrary: s)
  case Nil
  then show ?case by simp
next
  case (Cons c cs)
  have "took_end_action (ObjectNavTask_call s c)"
    using Cons.prems
    by (cases c) (simp_all add: ObjectNavTask_step_took_end ObjectNavTask_metrics_keeps)
  then show ?case using Cons.IH by simp
qed

lemma ObjectNavTask_run_finite:
  "is_finite (last_geodesic_distance s) \<Longrightarrow>
   is_finite (last_geodesic_distance (ObjectNavTask_run s cs))"
  unfolding ObjectNavTask_run_def
proof (induction cs arbitrary: s)
  case Nil
  then show ?case by simp
next
  case (Cons c cs)
  have "is_finite (last_geodesic_distance (ObjectNavTask_call s c))"
    using Cons.prems
    by (cases c)
       (auto simp: ObjectNavTask_step_lgd ObjectNavTask_metrics_keeps guarded_distance_finite
          split: sum.splits)
  then show ?case using Cons.IH by simp
qed


lemma PointNavTask_step_end:
  assumes "py_getitem PointNavTask_actions a = Inr END"
  shows "PointNavTask_step s a w =
     (Inr \<lparr> observation = w_observations w,
            reward = fadd (fadd (fneg (py_float (1 / 100)))
                       (fsub (last_geodesic_distance s)
                          (guarded_distance (w_distance_to_goal w) (last_geodesic_distance s))))
                       (if is_goal_in_range w then py_float 10 else py_float 0),
            done_flag = w_is_done w,
            info = [(''last_action_success'', PyBool (is_goal_in_range w))] \<rparr>,
      s\<lparr>took_end_action := True, success := is_goal_in_range w,
        last_action_success := Some (is_goal_in_range w),
        last_geodesic_distance :=
          guarded_distance (w_distance_to_goal w) (last_geodesic_distance s),
        rewards := rewards s @
          [fadd (fadd (fneg (py_float (1 / 100)))
                       (fsub (last_geodesic_distance s)
                          (guarded_distance (w_distance_to_goal w) (last_geodesic_distance s))))
                       (if is_goal_in_range w then py_float 10 else py_float 0)]\<rparr>)"
  by (simp add: PointNavTask_step_returns[OF assms] PointNavTask_pre_def
        PointNavTask_judge_def Let_def)

section \<open>The end action\<close>

text \<open>
  What a step that takes \<^verbatim>\<open>end\<close> does when it returns: in both variants it leaves
  \<open>took_end_action\<close> true, sets \<open>success\<close> to the goal-in-range test of that moment and
  \<open>last_action_success\<close> to \<open>success\<close>, and returns the shaped reward plus \<open>10.0\<close> when
  \<open>success\<close> is true and plus \<open>0.0\<close> when it is not; \<open>took_end_action\<close> then stays true
  through every later sequence of calls.  In the object-goal variant a null distance
  reading makes \<^verbatim>\<open>judge\<close> raise instead.
\<close>

lemma end_action_sets_outcome:
  fixes s :: nav_task and w :: "'o world"
    and t :: object_nav_task and v :: "('s observations) world"
  assumes "py_getitem PointNavTask_actions a = Inr END"
      and "py_getitem ObjectNavTask_actions b = Inr END"
  shows
    "(let out = PointNavTask_step s a w; s' = snd out
      in took_end_action s' \<and> success s' = is_goal_in_range w
         \<and> last_action_success s' = Some (success s')
         \<and> (\<exists>r. fst out = Inr r
               \<and> reward r =
                   fadd (fadd (fneg (py_float (1 / 100)))
                           (fsub (last_geodesic_distance s)
                              (guarded_distance (w_distance_to_goal w)
                                 (last_geodesic_distance s))))
                     (if success s' then py_float 10 else py_float 0))
         \<and> (\<forall>cs :: 'o call list. took_end_action (PointNavTask_run s' cs)))
   \<and> (let out = ObjectNavTask_step t b v; t' = snd out
      in took_end_action t' \<and> success t' = is_goal_in_range v
         \<and> last_action_success t' = Some (success t')
         \<and> (case w_distance_to_goal v of
               None \<Rightarrow> fst out = Inl TypeError
             | Some x \<Rightarrow>
                 \<exists>r. fst out = Inr r
                   \<and> reward r =
                       fadd (fadd (fneg (py_float (1 / 100)))
                               (fsub (last_geodesic_distance t)
                                  (guarded_distance (Some x) (last_geodesic_distance t))))
                         (if success t' then py_float 10 else py_float 0))
         \<and> (\<forall>cs :: ('s observations) call list. took_end_action (ObjectNavTask_run t' cs)))"
proof -
  let ?out = "PointNavTask_step s a w" and ?out' = "ObjectNavTask_step t b v"
  have p1: "took_end_action (snd ?out)"
    by (simp add: PointNavTask_step_took_end assms)
  have p2: "success (snd ?out) = is_goal_in_range w"
    and p3: "last_action_success (snd ?out) = Some (success (snd ?out))"
    by (simp_all add: PointNavTask_step_end[OF assms(1)])
  have p4: "\<exists>r. fst ?out = Inr r
               \<and> reward r =
                   fadd (fadd (fneg (py_float (1 / 100)))
                           (fsub (last_geodesic_distance s)
                              (guarded_distance (w_distance_to_goal w)
                                 (last_geodesic_distance s))))
                     (if success (snd ?out) then py_float 10 else py_float 0)"
    by (simp add: PointNavTask_step_end[OF assms(1)])
  have p5: "\<forall>cs :: 'o call list. took_end_action (PointNavTask_run (snd ?out) cs)"
    using PointNavTask_run_took_end[OF p1] by blast
  have o1: "took_end_action (snd ?out')"
    by (simp add: ObjectNavTask_step_took_end assms)
  have o2: "success (snd ?out') = is_goal_in_range v"
    and o3: "last_action_success (snd ?out') = Some (success (snd ?out'))"
    by (cases "w_distance_to_goal v";
        simp add: ObjectNavTask_step_type_error[OF assms(2)]
          ObjectNavTask_step_returns[OF assms(2)] ObjectNavTask_pre_fields
          ObjectNavTask_post_fields ObjectNavTask_judge_returns Let_def)+
  have o4: "case w_distance_to_goal v of
               None \<Rightarrow> fst ?out' = Inl TypeError
             | Some x \<Rightarrow>
                 \<exists>r. fst ?out' = Inr r
                   \<and> reward r =
                       fadd (fadd (fneg (py_float (1 / 100)))
                               (fsub (last_geodesic_distance t)
                                  (guarded_distance (Some x) (last_geodesic_distance t))))
                         (if success (snd ?out') then py_float 10 else py_float 0)"
    by (cases "w_distance_to_goal v")
       (simp_all add: ObjectNavTask_step_type_error[OF assms(2)]
          ObjectNavTask_step_returns[OF assms(2)] ObjectNavTask_pre_fields
          ObjectNavTask_post_fields ObjectNavTask_judge_returns Let_def)
  have o5: "\<forall>cs :: ('s observations) call list.
              took_end_action (ObjectNavTask_run (snd ?out') cs)"
    using ObjectNavTask_run_took_end[OF o1] by blast
  show ?thesis
    unfolding Let_def using p1 p2 p3 p4 p5 o1 o2 o3 o4 o5 by blast
qed


lemma init_finite:
  "is_finite (last_geodesic_distance (PointNavTask_init d0 ti))"
  "is_finite (last_geodesic_distance (ObjectNavTask_init d0 ti scene eid))"
  by (simp_all add: PointNavTask_init_def ObjectNavTask_init_def Let_def py_float_zero
        guarded_distance_finite)

section \<open>The stored distance\<close>

text \<open>
  Claim C3.  In both variants, a step in which the simulator's \<open>distance_to_goal\<close> reading is
  null, NaN, \<open>+inf\<close> or \<open>-inf\<close> leaves \<open>last_geodesic_distance\<close> as it was (whatever the action
  index, and also when the step raises); and from construction on, through every sequence
  of calls, \<open>last_geodesic_distance\<close> is a finite number.
\<close>

theorem invalid_reading_keeps_distance:
  fixes s :: nav_task and w :: "'o world"
    and t :: object_nav_task and v :: "('s observations) world"
  shows
    "(w_distance_to_goal w \<in> {None, Some NaN, Some PosInf, Some NegInf} \<longrightarrow>
        last_geodesic_distance (snd (PointNavTask_step s a w)) = last_geodesic_distance s)
   \<and> (w_distance_to_goal v \<in> {None, Some NaN, Some PosInf, Some NegInf} \<longrightarrow>
        last_geodesic_distance (snd (ObjectNavTask_step t b v)) = last_geodesic_distance t)
   \<and> (\<forall>cs :: 'o call list.
        is_finite (last_geodesic_distance (PointNavTask_run (PointNavTask_init d0 ti) cs)))
   \<and> (\<forall>cs :: ('s observations) call list.
        is_finite (last_geodesic_distance
          (ObjectNavTask_run (ObjectNavTask_init d0' ti' scene eid) cs)))"
proof (intro conjI impI allI)
  assume "w_distance_to_goal w \<in> {None, Some NaN, Some PosInf, Some NegInf}"
  then show "last_geodesic_distance (snd (PointNavTask_step s a w)) = last_geodesic_distance s"
    by (simp add: PointNavTask_step_lgd guarded_distance_invalid split: sum.splits)
next
  assume "w_distance_to_goal v \<in> {None, Some NaN, Some PosInf, Some NegInf}"
  then show "last_geodesic_distance (snd (ObjectNavTask_step t b v)) = last_geodesic_distance t"
    by (simp add: ObjectNavTask_step_lgd guarded_distance_invalid split: sum.splits)
next
  fix cs :: "'o call list"
  show "is_finite (last_geodesic_distance (PointNavTask_run (PointNavTask_init d0 ti) cs))"
    by (rule PointNavTask_run_finite) (rule init_finite)
next
  fix cs :: "('s observations) call list"
  show "is_finite (last_geodesic_distance
          (ObjectNavTask_run (ObjectNavTask_init d0' ti' scene eid) cs))"
    by (rule ObjectNavTask_run_finite) (rule init_finite)
qed

theorem invalid_reading_keeps_distance_witness:
  "Some NaN \<in> {None, Some NaN, Some PosInf, Some NegInf}
   \<and> last_geodesic_distance (snd (PointNavTask_step (PointNavTask_init (Some (Finite 5)) []) 0
         (example_world () (Some NaN) None False))) = Finite 5
   \<and> last_geodesic_distance (snd (ObjectNavTask_step
         (ObjectNavTask_init (Some (Finite 5)) [] ''17DRP5sb8fy.glb'' ''0'') 0
         (example_world example_pose (Some NaN) None False))) = Finite 5
   \<and> is_finite (last_geodesic_distance
         (PointNavTask_run (PointNavTask_init (Some PosInf) [])
            [Step 0 (example_world () (Some NegInf) None False)]))"
  using invalid_reading_keeps_distance[of "example_world () (Some NaN) None False"
          "PointNavTask_init (Some (Finite 5)) []" 0
          "example_world example_pose (Some NaN) None False"
          "ObjectNavTask_init (Some (Finite 5)) [] ''17DRP5sb8fy.glb'' ''0''" 0
          "Some PosInf" "[]"]
  by (simp add: example_world_def PointNavTask_init_def ObjectNavTask_init_def
        guarded_distance_def py_in_def Let_def)

section \<open>Metrics and the reward log\<close>





section \<open>The expert\<close>

lemma py_index_END:
  "py_index PointNavTask_actions END = Inr 3"
  "py_index ObjectNavTask_actions END = Inr 3"
  by (simp_all add: PointNavTask_actions_def ObjectNavTask_actions_def)

text \<open>
  Claim C7.  In both variants, when the goal-in-range test holds (the simulator's SPL is
  truthy), \<^verbatim>\<open>query_expert\<close> returns the index of \<^verbatim>\<open>end\<close> in the action tuple, which is 3, with
  the flag true, whatever the follower is and without a call to it (the follower's state is
  the one before).  Otherwise, with \<open>target\<close> the entry of that name in the task's
  \<open>task_info\<close>, it returns what the follower answers for \<open>target\<close>, flagged true exactly when
  the answer is not null.
\<close>

theorem query_expert_policy:
  fixes s :: nav_task and w :: "'o world" and follower :: "'f \<Rightarrow> py_value \<Rightarrow> int option \<times> 'f"
    and t :: object_nav_task and v :: "'p world"
    and follower' :: "'g \<Rightarrow> py_value \<Rightarrow> int option \<times> 'g"
  shows
    "(is_goal_in_range w \<longrightarrow>
        PointNavTask_query_expert s w follower f = (Inr (Some 3, True), f)
        \<and> py_index PointNavTask_actions END = Inr 3)
   \<and> (\<not> is_goal_in_range w \<and> map_of (task_info s) ''target'' = Some target \<longrightarrow>
        PointNavTask_query_expert s w follower f =
          (Inr (fst (follower f target), fst (follower f target) \<noteq> None),
           snd (follower f target)))
   \<and> (is_goal_in_range v \<longrightarrow>
        ObjectNavTask_query_expert t v follower' g = (Inr (Some 3, True), g)
        \<and> py_index ObjectNavTask_actions END = Inr 3)
   \<and> (\<not> is_goal_in_range v \<and> map_of (task_info t) ''target'' = Some target' \<longrightarrow>
        ObjectNavTask_query_expert t v follower' g =
          (Inr (fst (follower' g target'), fst (follower' g target') \<noteq> None),
           snd (follower' g target')))"
  by (simp add: PointNavTask_query_expert_def ObjectNavTask_query_expert_def py_index_END
        split_beta)

theorem query_expert_policy_witness:
  "is_goal_in_range (example_world () None (Some (Finite 1)) False)
   \<and> \<not> is_goal_in_range (example_world () None (Some (Finite 0)) False)
   \<and> map_of (task_info (PointNavTask_init None [(''target'', PyList [])])) ''target''
        = Some (PyList [])
   \<and> PointNavTask_query_expert (PointNavTask_init None [(''target'', PyList [])])
        (example_world () None (Some (Finite 1)) False) example_follower 0
        = (Inr (Some 3, True), 0)
   \<and> PointNavTask_query_expert (PointNavTask_init None [(''target'', PyList [])])
        (example_world () None (Some (Finite 0)) False) example_follower 0
        = (Inr (None, False), 1)"
  using query_expert_policy[where w = "example_world () None (Some (Finite 1)) False"
          and s = "PointNavTask_init None [(''target'', PyList [])]"
          and follower = example_follower and f = 0 and target = "PyList []"
          and v = "example_world () None (Some (Finite 1)) False"
          and t = "ObjectNavTask_init None [(''target'', PyList [])] ''17DRP5sb8fy.glb'' ''0''"
          and follower' = example_follower and g = 0 and target' = "PyList []"]
    query_expert_policy[where w = "example_world () None (Some (Finite 0)) False"
          and s = "PointNavTask_init None [(''target'', PyList [])]"
          and follower = example_follower and f = 0 and target = "PyList []"
          and v = "example_world () None (Some (Finite 0)) False"
          and t = "ObjectNavTask_init None [(''target'', PyList [])] ''17DRP5sb8fy.glb'' ''0''"
          and follower' = example_follower and g = 0 and target' = "PyList []"]
  by (simp add: example_world_def is_goal_in_range_def PointNavTask_init_def
        example_follower_def)

section \<open>Rendering\<close>

text \<open>
  Claim C8.  The claim asks of every variant the rgb frame for mode \<open>rgb\<close>, the depth frame
  for mode \<open>depth\<close> and a not-implemented error for any other mode.  \<^verbatim>\<open>HabitatTask.render\<close>
  does so.  The overriding \<^verbatim>\<open>render\<close> of \<^verbatim>\<open>PointNavTask\<close> and of \<^verbatim>\<open>ObjectNavTask\<close>, whose
  assertion says that rgb and depth rendering are implemented, returns the rgb frame for
  mode \<open>depth\<close> too, and fails the assertion for any other mode.  The theorem evaluates the
  three functions on a frame whose two images differ.
\<close>

theorem render_depth_returns_rgb:
  "PointNavTask_render ''depth'' \<lparr>frame_rgb = ''R'', frame_depth = ''D''\<rparr> = Inr ''R''
   \<and> ObjectNavTask_render ''depth'' \<lparr>frame_rgb = ''R'', frame_depth = ''D''\<rparr> = Inr ''R''
   \<and> HabitatTask_render ''depth'' \<lparr>frame_rgb = ''R'', frame_depth = ''D''\<rparr> = Inr ''D''
   \<and> PointNavTask_render ''rgb'' \<lparr>frame_rgb = ''R'', frame_depth = ''D''\<rparr> = Inr ''R''
   \<and> PointNavTask_render ''semantic'' \<lparr>frame_rgb = ''R'', frame_depth = ''D''\<rparr>
        = Inl AssertionError
   \<and> ObjectNavTask_render ''semantic'' \<lparr>frame_rgb = ''R'', frame_depth = ''D''\<rparr>
        = Inl AssertionError
   \<and> HabitatTask_render ''semantic'' \<lparr>frame_rgb = ''R'', frame_depth = ''D''\<rparr>
        = Inl NotImplementedError"
  by (simp add: PointNavTask_render_def ObjectNavTask_render_def HabitatTask_render_def)

section \<open>The info mapping of a step\<close>

lemma py_getitem_0:
  "py_getitem PointNavTask_actions 0 = Inr MOVE_AHEAD"
  "py_getitem ObjectNavTask_actions 0 = Inr MOVE_AHEAD"
  by (simp_all add: py_getitem_def PointNavTask_actions_def ObjectNavTask_actions_def)

text \<open>
  Claim C9, as stated, fails: the info mapping of a step result has the single key
  \<open>last_action_success\<close>; the action index is not in it.  Here a \<^verbatim>\<open>move_ahead\<close> step (index 0)
  of a fresh goal-point task.
\<close>

theorem step_info_has_no_action_index:
  "map_sum id info (fst (PointNavTask_step (PointNavTask_init (Some (Finite 5)) []) 0
       (example_world () (Some (Finite 5)) None False)))
     = Inr [(''last_action_success'', PyBool True)]
   \<and> map_of [(''last_action_success'', PyBool True)] ''action'' = None
   \<and> map_sum id info (fst (ObjectNavTask_step
       (ObjectNavTask_init (Some (Finite 5)) [] ''17DRP5sb8fy.glb'' ''0'') 0
       (example_world example_pose (Some (Finite 5)) None False)))
     = Inr [(''last_action_success'', PyBool True)]"
  by (simp add: PointNavTask_step_returns[OF py_getitem_0(1)]
        ObjectNavTask_step_returns[OF py_getitem_0(2)] ObjectNavTask_judge_returns
        PointNavTask_pre_def ObjectNavTask_pre_fields example_world_def Let_def)

text \<open>
  Claim C9, amended.  In both variants, the info mapping of every step result that
  \<^verbatim>\<open>_step\<close> returns consists of the one entry \<open>last_action_success\<close>, whose value is the
  task's \<open>last_action_success\<close> after the step, a boolean.
\<close>

theorem step_info_last_action_success:
  fixes s :: nav_task and w :: "'o world"
    and t :: object_nav_task and v :: "('s observations) world"
  shows
    "(fst (PointNavTask_step s a w) = Inr r \<longrightarrow>
        (\<exists>ok. last_action_success (snd (PointNavTask_step s a w)) = Some ok
             \<and> info r = [(''last_action_success'', PyBool ok)]))
   \<and> (fst (ObjectNavTask_step t b v) = Inr r' \<longrightarrow>
        (\<exists>ok. last_action_success (snd (ObjectNavTask_step t b v)) = Some ok
             \<and> info r' = [(''last_action_success'', PyBool ok)]))"
proof (intro conjI impI)
  assume r: "fst (PointNavTask_step s a w) = Inr r"
  then obtain name where n: "py_getitem PointNavTask_actions a = Inr name"
    by (cases "py_getitem PointNavTask_actions a") (simp_all add: PointNavTask_step_raises)
  show "\<exists>ok. last_action_success (snd (PointNavTask_step s a w)) = Some ok
             \<and> info r = [(''last_action_success'', PyBool ok)]"
    using r by (auto simp: PointNavTask_step_returns[OF n] PointNavTask_judge_fields
        PointNavTask_pre_def)
next
  assume r: "fst (ObjectNavTask_step t b v) = Inr r'"
  then obtain name where n: "py_getitem ObjectNavTask_actions b = Inr name"
    by (cases "py_getitem ObjectNavTask_actions b") (simp_all add: ObjectNavTask_step_index_error)
  from r n obtain x where x: "w_distance_to_goal v = Some x"
    by (cases "w_distance_to_goal v") (simp_all add: ObjectNavTask_step_type_error)
  show "\<exists>ok. last_action_success (snd (ObjectNavTask_step t b v)) = Some ok
             \<and> info r' = [(''last_action_success'', PyBool ok)]"
    using r by (auto simp: ObjectNavTask_step_returns[OF n x] ObjectNavTask_judge_returns[OF x]
        ObjectNavTask_pre_fields ObjectNavTask_post_fields Let_def)
qed

theorem step_info_last_action_success_witness:
  "fst (PointNavTask_step (PointNavTask_init (Some (Finite 5)) []) 3
       (example_world () None None True))
     = Inr \<lparr> observation = (), reward = fadd (fadd (fneg (py_float (1 / 100)))
               (fsub (Finite 5) (Finite 5))) (py_float 0), done_flag = True,
             info = [(''last_action_success'', PyBool False)] \<rparr>
   \<and> last_action_success (snd (PointNavTask_step (PointNavTask_init (Some (Finite 5)) []) 3
       (example_world () None None True))) = Some False"
proof -
  have e: "fst (PointNavTask_step (PointNavTask_init (Some (Finite 5)) []) 3
       (example_world () None None True))
     = Inr \<lparr> observation = (), reward = fadd (fadd (fneg (py_float (1 / 100)))
               (fsub (Finite 5) (Finite 5))) (py_float 0), done_flag = True,
             info = [(''last_action_success'', PyBool False)] \<rparr>"
    by (simp add: PointNavTask_step_end[OF py_getitem_PointNav_3] example_world_def
          PointNavTask_init_def guarded_distance_def py_in_def is_goal_in_range_def)
  from step_info_last_action_success[where s = "PointNavTask_init (Some (Finite 5)) []"
         and a = 3 and w = "example_world () None None True",
         THEN conjunct1, rule_format, OF e]
  show ?thesis using e by auto
qed

section \<open>The episode identifier\<close>

lemma py_slice_stem:
  "length stem = 11 \<Longrightarrow> length ext = 4 \<Longrightarrow> py_slice (dir @ stem @ ext) (- 15) (- 4) = stem"
  by (simp add: py_slice_def Let_def)

lemma spec_filename_stem_path:
  assumes dir: "dir = [] \<or> last dir = CHR ''/''"
    and stem: "CHR ''/'' \<notin> set stem"
    and ext: "CHR ''/'' \<notin> set e" "CHR ''.'' \<notin> set e"
  shows "spec_filename_stem (dir @ stem @ CHR ''.'' # e) = stem"
proof -
  let ?P = "\<lambda>c. c \<noteq> CHR ''/''" and ?Q = "\<lambda>c. c \<noteq> CHR ''.''"
  have d: "takeWhile ?P (rev dir) = []"
    using dir by (cases dir rule: rev_cases) auto
  have "takeWhile ?P ((rev e @ CHR ''.'' # rev stem) @ rev dir)
          = (rev e @ CHR ''.'' # rev stem) @ takeWhile ?P (rev dir)"
    by (rule takeWhile_append2) (use stem ext(1) in auto)
  then have "takeWhile ?P (rev (dir @ stem @ CHR ''.'' # e)) = rev (stem @ CHR ''.'' # e)"
    using d by simp
  then have b: "rev (takeWhile ?P (rev (dir @ stem @ CHR ''.'' # e))) = stem @ CHR ''.'' # e"
    by simp
  have "dropWhile ?Q (rev e @ CHR ''.'' # rev stem) = dropWhile ?Q (CHR ''.'' # rev stem)"
    by (rule dropWhile_append2) (use ext(2) in auto)
  then have "dropWhile ?Q (rev (stem @ CHR ''.'' # e)) = CHR ''.'' # rev stem"
    by simp
  then show ?thesis
    unfolding spec_filename_stem_def b Let_def by simp
qed

text \<open>
  Claim C10, as stated, fails: the identifier is cut out of the scene path by position,
  not by file name.  For a scene file whose stem has six characters it starts in the
  directory name.
\<close>

theorem episode_id_is_not_the_stem:
  "HabitatTask_episode_id ''data/scene_datasets/gibson/Adrian.glb'' ''7'' = ''bson/Adrian_7''
   \<and> spec_episode_id ''data/scene_datasets/gibson/Adrian.glb'' ''7'' = ''Adrian_7''"
  by (simp add: HabitatTask_episode_id_def py_slice_def spec_episode_id_def
        spec_filename_stem_def Let_def)

text \<open>
  Claim C10, amended.  The persisted episode identifier is the (at most eleven) characters
  of the scene path that precede its last four, an underscore, and the episode id.  For
  every scene path that ends in a file name of eleven characters followed by an extension
  of a dot and three characters, this is the filename stem, an underscore, and the episode
  id.
\<close>

theorem episode_id_of_eleven_character_stem:
  "HabitatTask_episode_id scene_id ep_id = py_slice scene_id (- 15) (- 4) @ ''_'' @ ep_id
   \<and> (length stem = 11 \<and> length e = 3
        \<and> (dir = [] \<or> last dir = CHR ''/'') \<and> CHR ''/'' \<notin> set stem
        \<and> CHR ''/'' \<notin> set e \<and> CHR ''.'' \<notin> set e \<longrightarrow>
      HabitatTask_episode_id (dir @ stem @ CHR ''.'' # e) ep_id = stem @ ''_'' @ ep_id
      \<and> HabitatTask_episode_id (dir @ stem @ CHR ''.'' # e) ep_id
          = spec_episode_id (dir @ stem @ CHR ''.'' # e) ep_id)"
proof (intro conjI impI)
  show "HabitatTask_episode_id scene_id ep_id = py_slice scene_id (- 15) (- 4) @ ''_'' @ ep_id"
    by (simp add: HabitatTask_episode_id_def)
next
  assume a: "length stem = 11 \<and> length e = 3
        \<and> (dir = [] \<or> last dir = CHR ''/'') \<and> CHR ''/'' \<notin> set stem
        \<and> CHR ''/'' \<notin> set e \<and> CHR ''.'' \<notin> set e"
  then have s: "py_slice (dir @ stem @ CHR ''.'' # e) (- 15) (- 4) = stem"
    by (intro py_slice_stem) simp_all
  show "HabitatTask_episode_id (dir @ stem @ CHR ''.'' # e) ep_id = stem @ ''_'' @ ep_id"
    by (simp add: HabitatTask_episode_id_def s)
  show "HabitatTask_episode_id (dir @ stem @ CHR ''.'' # e) ep_id
          = spec_episode_id (dir @ stem @ CHR ''.'' # e) ep_id"
    using a by (simp add: HabitatTask_episode_id_def s spec_episode_id_def
        spec_filename_stem_path)
qed

theorem episode_id_of_eleven_character_stem_witness:
  "length ''17DRP5sb8fy'' = 11 \<and> length ''glb'' = 3
   \<and> last ''data/scene_datasets/mp3d/17DRP5sb8fy/'' = CHR ''/''
   \<and> CHR ''/'' \<notin> set ''17DRP5sb8fy'' \<and> CHR ''/'' \<notin> set ''glb'' \<and> CHR ''.'' \<notin> set ''glb''
   \<and> HabitatTask_episode_id ''data/scene_datasets/mp3d/17DRP5sb8fy/17DRP5sb8fy.glb'' ''42''
        = ''17DRP5sb8fy_42''
   \<and> HabitatTask_episode_id ''data/scene_datasets/mp3d/17DRP5sb8fy/17DRP5sb8fy.glb'' ''42''
        = spec_episode_id ''data/scene_datasets/mp3d/17DRP5sb8fy/17DRP5sb8fy.glb'' ''42''"
proof -
  have "HabitatTask_episode_id
          (''data/scene_datasets/mp3d/17DRP5sb8fy/'' @ ''17DRP5sb8fy'' @ CHR ''.'' # ''glb'') ''42''
          = ''17DRP5sb8fy'' @ ''_'' @ ''42''
        \<and> HabitatTask_episode_id
          (''data/scene_datasets/mp3d/17DRP5sb8fy/'' @ ''17DRP5sb8fy'' @ CHR ''.'' # ''glb'') ''42''
          = spec_episode_id
          (''data/scene_datasets/mp3d/17DRP5sb8fy/'' @ ''17DRP5sb8fy'' @ CHR ''.'' # ''glb'') ''42''"
    using episode_id_of_eleven_character_stem[where stem = "''17DRP5sb8fy''" and e = "''glb''"
          and dir = "''data/scene_datasets/mp3d/17DRP5sb8fy/''" and ep_id = "''42''"
          and scene_id = "[]"]
    by auto
  then show ?thesis by (elim conjE) simp
qed

section \<open>The running minimum of the object-goal variant\<close>

lemma fle_refl: "x \<noteq> NaN \<Longrightarrow> fle x x"
  by (cases x) simp_all

lemma fle_trans: "fle x y \<Longrightarrow> fle y z \<Longrightarrow> fle x z"
  by (cases x; cases y; cases z) simp_all

lemma not_flt_fle: "x \<noteq> NaN \<Longrightarrow> y \<noteq> NaN \<Longrightarrow> \<not> flt x y \<Longrightarrow> fle y x"
  by (cases x; cases y) simp_all

lemma flt_fle: "flt x y \<Longrightarrow> fle x y"
  by (cases x; cases y) simp_all

lemma ObjectNavTask_step_min:
  "min_distance_to_goal (snd (ObjectNavTask_step s a w)) =
     (case py_getitem ObjectNavTask_actions a of
        Inl e \<Rightarrow> min_distance_to_goal s
      | Inr name \<Rightarrow>
          (case w_distance_to_goal w of
             None \<Rightarrow> min_distance_to_goal s
           | Some x \<Rightarrow> if flt (min_distance_to_goal s) x then min_distance_to_goal s else x))"
proof (cases "py_getitem ObjectNavTask_actions a")
  case (Inl e)
  then show ?thesis by (simp add: ObjectNavTask_step_index_error)
next
  case (Inr name)
  then show ?thesis
    by (cases "w_distance_to_goal w")
       (simp_all add: ObjectNavTask_step_type_error ObjectNavTask_step_returns
          ObjectNavTask_pre_fields ObjectNavTask_post_fields ObjectNavTask_judge_returns Let_def)
qed

lemma ObjectNavTask_call_min:
  assumes "min_distance_to_goal s \<noteq> NaN"
    and "list_all (\<lambda>r. r \<noteq> None \<and> r \<noteq> Some NaN) (seen_readings [c])"
  shows "min_distance_to_goal (ObjectNavTask_call s c) \<noteq> NaN
       \<and> fle (min_distance_to_goal (ObjectNavTask_call s c)) (min_distance_to_goal s)
       \<and> (min_distance_to_goal (ObjectNavTask_call s c) = min_distance_to_goal s
           \<or> Some (min_distance_to_goal (ObjectNavTask_call s c)) \<in> set (seen_readings [c]))
       \<and> (\<forall>x. Some x \<in> set (seen_readings [c]) \<longrightarrow>
             fle (min_distance_to_goal (ObjectNavTask_call s c)) x)"
proof (cases c)
  case (Metrics w)
  then show ?thesis using assms(1) by (simp add: ObjectNavTask_metrics_keeps fle_refl)
next
  case (Step a w)
  show ?thesis
  proof (cases "py_getitem ObjectNavTask_actions a")
    case (Inl e)
    then show ?thesis using assms(1) Step by (simp add: ObjectNavTask_step_min fle_refl)
  next
    case (Inr name)
    with assms(2) Step obtain x where x: "w_distance_to_goal w = Some x" "x \<noteq> NaN"
      by (cases "w_distance_to_goal w") auto
    show ?thesis
      using assms(1) Step Inr x
      by (auto simp: ObjectNavTask_step_min fle_refl flt_fle not_flt_fle)
  qed
qed

lemma seen_readings_append: "seen_readings (cs @ cs') = seen_readings cs @ seen_readings cs'"
proof (induction cs)
  case Nil
  then show ?case by simp
next
  case (Cons c cs)
  then show ?case by (cases c) (simp_all split: sum.splits)
qed

lemma ObjectNavTask_run_min:
  assumes "min_distance_to_goal s \<noteq> NaN"
    and "list_all (\<lambda>r. r \<noteq> None \<and> r \<noteq> Some NaN) (seen_readings cs)"
  shows "min_distance_to_goal (ObjectNavTask_run s cs) \<noteq> NaN
       \<and> fle (min_distance_to_goal (ObjectNavTask_run s cs)) (min_distance_to_goal s)
       \<and> (min_distance_to_goal (ObjectNavTask_run s cs) = min_distance_to_goal s
           \<or> Some (min_distance_to_goal (ObjectNavTask_run s cs)) \<in> set (seen_readings cs))
       \<and> (\<forall>x. Some x \<in> set (seen_readings cs) \<longrightarrow>
             fle (min_distance_to_goal (ObjectNavTask_run s cs)) x)"
  using assms
proof (induction cs arbitrary: s)
  case Nil
  then show ?case by (simp add: ObjectNavTask_run_def fle_refl)
next
  case (Cons c cs)
  let ?sb = "ObjectNavTask_call s c"
  let ?ma = "min_distance_to_goal s" and ?mb = "min_distance_to_goal ?sb"
  let ?m = "min_distance_to_goal (ObjectNavTask_run ?sb cs)"
  have split: "seen_readings (c # cs) = seen_readings [c] @ seen_readings cs"
    using seen_readings_append[of "[c]" cs] by simp
  have ok1: "list_all (\<lambda>r. r \<noteq> None \<and> r \<noteq> Some NaN) (seen_readings [c])"
    and ok2: "list_all (\<lambda>r. r \<noteq> None \<and> r \<noteq> Some NaN) (seen_readings cs)"
    using Cons.prems(2) unfolding split by simp_all
  from ObjectNavTask_call_min[OF Cons.prems(1) ok1]
  have a1: "?mb \<noteq> NaN" and a2: "fle ?mb ?ma"
    and a3: "?mb = ?ma \<or> Some ?mb \<in> set (seen_readings [c])"
    and a4: "\<forall>x. Some x \<in> set (seen_readings [c]) \<longrightarrow> fle ?mb x"
    by blast+
  from Cons.IH[OF a1 ok2]
  have b1: "?m \<noteq> NaN" and b2: "fle ?m ?mb"
    and b3: "?m = ?mb \<or> Some ?m \<in> set (seen_readings cs)"
    and b4: "\<forall>x. Some x \<in> set (seen_readings cs) \<longrightarrow> fle ?m x"
    by blast+
  have run: "ObjectNavTask_run s (c # cs) = ObjectNavTask_run ?sb cs"
    by (simp add: ObjectNavTask_run_def)
  have c2: "fle ?m ?ma" using b2 a2 by (rule fle_trans)
  have c3: "?m = ?ma \<or> Some ?m \<in> set (seen_readings (c # cs))"
    unfolding split using a3 b3 by auto
  have c4: "\<forall>x. Some x \<in> set (seen_readings (c # cs)) \<longrightarrow> fle ?m x"
    unfolding split using a4 b4 b2 by (auto intro: fle_trans)
  show ?case unfolding run using b1 c2 c3 c4 by blast
qed

lemma ObjectNavTask_run_append:
  "ObjectNavTask_run s (cs @ cs') = ObjectNavTask_run (ObjectNavTask_run s cs) cs'"
  by (simp add: ObjectNavTask_run_def)

lemma ObjectNavTask_init_min:
  "min_distance_to_goal (ObjectNavTask_init d0 ti scene eid) = guarded_distance d0 (py_float 0)"
  by (simp add: ObjectNavTask_init_def Let_def)

lemma guarded_distance_not_nan: "fb \<noteq> NaN \<Longrightarrow> guarded_distance d fb \<noteq> NaN"
  by (cases d; cases "the d") (auto simp: guarded_distance_def py_in_def)

text \<open>
  Claim C5, as stated, fails on the readings it names.  A NaN reading becomes the running
  minimum (\<^verbatim>\<open>min(nan, m)\<close> is \<^verbatim>\<open>nan\<close>), and the next reading replaces it whatever its size
  (\<^verbatim>\<open>min(x, nan)\<close> is \<^verbatim>\<open>x\<close>): from an initial distance 3.0, the readings NaN and 5.0 leave the
  minimum at 5.0, above the value 3.0 it had.  A null reading makes the step raise a
  \<^verbatim>\<open>TypeError\<close>.
\<close>

theorem min_distance_rises_after_nan:
  "min_distance_to_goal (ObjectNavTask_init (Some (Finite 3)) [] ''17DRP5sb8fy.glb'' ''0'')
     = Finite 3
   \<and> min_distance_to_goal
       (ObjectNavTask_run (ObjectNavTask_init (Some (Finite 3)) [] ''17DRP5sb8fy.glb'' ''0'')
          [Step 0 (example_world example_pose (Some NaN) None False)]) = NaN
   \<and> min_distance_to_goal
       (ObjectNavTask_run (ObjectNavTask_init (Some (Finite 3)) [] ''17DRP5sb8fy.glb'' ''0'')
          [Step 0 (example_world example_pose (Some NaN) None False),
           Step 0 (example_world example_pose (Some (Finite 5)) None False)]) = Finite 5
   \<and> flt (Finite 3) (Finite 5)
   \<and> fst (ObjectNavTask_step
            (ObjectNavTask_init (Some (Finite 3)) [] ''17DRP5sb8fy.glb'' ''0'') 0
            (example_world example_pose None None False)) = Inl TypeError"
  by (simp add: ObjectNavTask_run_def ObjectNavTask_step_min py_getitem_0
        ObjectNavTask_step_type_error[OF py_getitem_0(2)] ObjectNavTask_init_min
        guarded_distance_def py_in_def example_world_def)

text \<open>
  Claim C5, amended.  In the object-goal variant, for every sequence of calls in which
  each raw distance reading that \<^verbatim>\<open>judge\<close> reads is a float other than NaN (finite or
  infinite, taken before the guard), \<open>min_distance_to_goal\<close> after the calls is its initial
  guarded value or one of these readings, is at most each of them, and does not increase
  when the sequence goes on.
\<close>

theorem min_distance_is_running_minimum:
  fixes cs cs' :: "('s observations) call list"
  shows
    "list_all (\<lambda>r. r \<noteq> None \<and> r \<noteq> Some NaN) (seen_readings (cs @ cs')) \<longrightarrow>
       (let t0 = ObjectNavTask_init d0 ti scene eid;
            m0 = min_distance_to_goal t0;
            m = min_distance_to_goal (ObjectNavTask_run t0 cs)
        in m0 = guarded_distance d0 (py_float 0)
           \<and> Some m \<in> set (Some m0 # seen_readings cs)
           \<and> (\<forall>r \<in> set (Some m0 # seen_readings cs). \<exists>x. r = Some x \<and> fle m x)
           \<and> fle (min_distance_to_goal (ObjectNavTask_run t0 (cs @ cs'))) m)"
proof
  let ?t = "ObjectNavTask_init d0 ti scene eid"
  let ?m = "min_distance_to_goal (ObjectNavTask_run ?t cs)"
  assume "list_all (\<lambda>r. r \<noteq> None \<and> r \<noteq> Some NaN) (seen_readings (cs @ cs'))"
  then have ok: "list_all (\<lambda>r. r \<noteq> None \<and> r \<noteq> Some NaN) (seen_readings cs)"
    and ok': "list_all (\<lambda>r. r \<noteq> None \<and> r \<noteq> Some NaN) (seen_readings cs')"
    by (simp_all add: seen_readings_append)
  have init: "min_distance_to_goal ?t \<noteq> NaN"
    by (simp add: ObjectNavTask_init_min guarded_distance_not_nan py_float_zero)
  from ObjectNavTask_run_min[OF init ok]
  have a1: "?m \<noteq> NaN" and a2: "fle ?m (min_distance_to_goal ?t)"
    and a3: "?m = min_distance_to_goal ?t \<or> Some ?m \<in> set (seen_readings cs)"
    and a4: "\<forall>x. Some x \<in> set (seen_readings cs) \<longrightarrow> fle ?m x"
    by blast+
  have b: "fle (min_distance_to_goal (ObjectNavTask_run ?t (cs @ cs'))) ?m"
    unfolding ObjectNavTask_run_append using ObjectNavTask_run_min[OF a1 ok'] by blast
  have c: "\<forall>r \<in> set (Some (min_distance_to_goal ?t) # seen_readings cs). \<exists>x. r = Some x \<and> fle ?m x"
  proof
    fix r assume r: "r \<in> set (Some (min_distance_to_goal ?t) # seen_readings cs)"
    show "\<exists>x. r = Some x \<and> fle ?m x"
    proof (cases "r = Some (min_distance_to_goal ?t)")
      case True
      then show ?thesis using a2 by blast
    next
      case False
      with r have in_cs: "r \<in> set (seen_readings cs)" by simp
      with ok obtain x where "r = Some x" by (cases r) (auto simp: list_all_iff)
      with in_cs a4 show ?thesis by blast
    qed
  qed
  show "let t0 = ObjectNavTask_init d0 ti scene eid;
            m0 = min_distance_to_goal t0;
            m = min_distance_to_goal (ObjectNavTask_run t0 cs)
        in m0 = guarded_distance d0 (py_float 0)
           \<and> Some m \<in> set (Some m0 # seen_readings cs)
           \<and> (\<forall>r \<in> set (Some m0 # seen_readings cs). \<exists>x. r = Some x \<and> fle m x)
           \<and> fle (min_distance_to_goal (ObjectNavTask_run t0 (cs @ cs'))) m"
    unfolding Let_def using a3 b c ObjectNavTask_init_min[of d0 ti scene eid] by auto
qed

theorem min_distance_is_running_minimum_witness:
  "list_all (\<lambda>r. r \<noteq> None \<and> r \<noteq> Some NaN)
     (seen_readings ([Step 0 (example_world example_pose (Some (Finite 4)) None False),
                      Step 0 (example_world example_pose (Some PosInf) None False)]
                     @ [Step 0 (example_world example_pose (Some (Finite 2)) None False)]))
   \<and> min_distance_to_goal
       (ObjectNavTask_run (ObjectNavTask_init (Some (Finite 5)) [] ''17DRP5sb8fy.glb'' ''0'')
          [Step 0 (example_world example_pose (Some (Finite 4)) None False),
           Step 0 (example_world example_pose (Some PosInf) None False)]) = Finite 4
   \<and> fle (min_distance_to_goal
       (ObjectNavTask_run (ObjectNavTask_init (Some (Finite 5)) [] ''17DRP5sb8fy.glb'' ''0'')
          ([Step 0 (example_world example_pose (Some (Finite 4)) None False),
            Step 0 (example_world example_pose (Some PosInf) None False)]
           @ [Step 0 (example_world example_pose (Some (Finite 2)) None False)])))
        (Finite 4)"
proof -
  have h: "list_all (\<lambda>r. r \<noteq> None \<and> r \<noteq> Some NaN)
     (seen_readings ([Step 0 (example_world example_pose (Some (Finite 4)) None False),
                      Step 0 (example_world example_pose (Some PosInf) None False)]
                     @ [Step 0 (example_world example_pose (Some (Finite 2)) None False)]))"
    by (simp add: py_getitem_0 example_world_def)
  have v: "min_distance_to_goal
       (ObjectNavTask_run (ObjectNavTask_init (Some (Finite 5)) [] ''17DRP5sb8fy.glb'' ''0'')
          [Step 0 (example_world example_pose (Some (Finite 4)) None False),
           Step 0 (example_world example_pose (Some PosInf) None False)]) = Finite 4"
    by (simp add: ObjectNavTask_run_def ObjectNavTask_step_min py_getitem_0
          ObjectNavTask_init_min guarded_distance_def py_in_def example_world_def)
  from min_distance_is_running_minimum[rule_format, OF h,
         where ?d0.0 = "Some (Finite 5)" and ti = "[]" and scene = "''17DRP5sb8fy.glb''"
           and eid = "''0''"]
  show ?thesis using h v by (simp add: Let_def)
qed

section \<open>Evaluating float arithmetic\<close>

lemma floor_rat_numeral:
  "\<lfloor>numeral a / numeral b :: rat\<rfloor> = numeral a div numeral b"
  "\<lfloor>- (numeral a / numeral b) :: rat\<rfloor> = - numeral a div numeral b"
  "\<lfloor>1 / numeral b :: rat\<rfloor> = 1 div numeral b"
  using floor_divide_of_int_eq[of "numeral a" "numeral b", where ?'a = rat]
    floor_divide_of_int_eq[of "- numeral a" "numeral b", where ?'a = rat]
    floor_divide_of_int_eq[of 1 "numeral b", where ?'a = rat]
  by simp_all

lemma ceiling_rat_numeral:
  "\<lceil>numeral a / numeral b :: rat\<rceil> = - (- numeral a div numeral b)"
  "\<lceil>1 / numeral b :: rat\<rceil> = - (- 1 div numeral b)"
  using ceiling_divide_eq_div[of "numeral a" "numeral b", where ?'a = rat]
    ceiling_divide_eq_div[of 1 "numeral b", where ?'a = rat]
  by simp_all

lemma pow2_numeral:
  "pow2 (numeral k) = 2 ^ numeral k" "pow2 (- numeral k) = 1 / 2 ^ numeral k" "pow2 0 = 1"
  by (simp_all add: pow2_def)

lemmas round_double_eval =
  round_double_def floor_log2_def round_half_even_def bit_length.simps Let_def
  floor_rat_numeral ceiling_rat_numeral pow2_numeral

lemma py_float_cent: "py_float (1 / 100) = Finite (5764607523034235 / 576460752303423488)"
  unfolding py_float_def by (simp add: round_double_eval)

lemma py_float_ten: "py_float 10 = Finite 10"
  unfolding py_float_def by (simp add: round_double_eval)

lemma fsub_distances:
  "fsub (Finite 5) (Finite 4) = Finite 1"
  "fsub (Finite 4) (Finite 3) = Finite 1"
  "fsub (Finite 3) (Finite (5 / 2)) = Finite (1 / 2)"
  "fsub (Finite x) (Finite x) = Finite 0"
  by (simp_all add: fsub_def round_double_eval)

lemma fadd_step_cost:
  "fadd (Finite (- (5764607523034235 / 576460752303423488))) (Finite 1)
     = Finite (4458563631096791 / 4503599627370496)"
  "fadd (Finite (- (5764607523034235 / 576460752303423488))) (Finite (1 / 2))
     = Finite (2206763817411543 / 4503599627370496)"
  "fadd (Finite (- (5764607523034235 / 576460752303423488))) (Finite 0)
     = Finite (- (5764607523034235 / 576460752303423488))"
  by (simp_all add: round_double_eval)

lemma fadd_bonus:
  "fadd (Finite (- (5764607523034235 / 576460752303423488))) (Finite 10)
     = Finite (5623870034678907 / 562949953421312)"
  by (simp add: round_double_eval)

lemma fadd_rewards:
  "fadd (Finite 0) (Finite (4458563631096791 / 4503599627370496))
     = Finite (4458563631096791 / 4503599627370496)"
  "fadd (Finite (4458563631096791 / 4503599627370496))
        (Finite (4458563631096791 / 4503599627370496))
     = Finite (4458563631096791 / 2251799813685248)"
  "fadd (Finite (4458563631096791 / 2251799813685248))
        (Finite (2206763817411543 / 4503599627370496))
     = Finite (2780972769901281 / 1125899906842624)"
  "fadd (Finite (2780972769901281 / 1125899906842624))
        (Finite (5623870034678907 / 562949953421312))
     = Finite (1753589104907387 / 140737488355328)"
  by (simp_all add: round_double_eval)

lemma py_float_literals:
  "py_float (99 / 100) = Finite (4458563631096791 / 4503599627370496)"
  "py_float (49 / 100) = Finite (2206763817411543 / 4503599627370496)"
  "py_float (999 / 100) = Finite (5623870034678907 / 562949953421312)"
  "py_float (1246 / 100) = Finite (1753589104907387 / 140737488355328)"
  unfolding py_float_def by (simp_all add: round_double_eval)

lemma np_sum_short:
  "length xs < 8 \<Longrightarrow> np_sum xs = fadd (Finite 0) (foldl fadd (Finite 0) xs)"
  by (simp add: np_sum_def pairwise_sum.simps)

lemma fadd_totals:
  "fadd (Finite 0) (Finite (1753589104907387 / 140737488355328))
     = Finite (1753589104907387 / 140737488355328)"
  "fadd (Finite (4458563631096791 / 2251799813685248))
        (Finite (4458563631096791 / 2251799813685248))
     = Finite (4458563631096791 / 1125899906842624)"
  "fadd (Finite (4458563631096791 / 1125899906842624))
        (Finite (4458563631096791 / 1125899906842624))
     = Finite (4458563631096791 / 562949953421312)"
  "fadd (Finite 0) (Finite (4458563631096791 / 562949953421312))
     = Finite (4458563631096791 / 562949953421312)"
  "fadd (Finite (4458563631096791 / 562949953421312))
        (Finite (2206763817411543 / 4503599627370496))
     = Finite (2367204554136617 / 281474976710656)"
  "fadd (Finite 0) (Finite (2367204554136617 / 281474976710656))
     = Finite (2367204554136617 / 281474976710656)"
  by (simp_all add: round_double_eval)


section \<open>The reward of a step\<close>

lemma PointNavTask_step_move:
  assumes "py_getitem PointNavTask_actions a = Inr name" "name \<noteq> END" "\<not> took_end_action s"
  shows "PointNavTask_step s a w =
     (Inr \<lparr> observation = w_observations w,
            reward = fadd (fneg (py_float (1 / 100)))
                       (fsub (last_geodesic_distance s)
                          (guarded_distance (w_distance_to_goal w) (last_geodesic_distance s))),
            done_flag = w_is_done w,
            info = [(''last_action_success'', PyBool (w_last_action_success w))] \<rparr>,
      s\<lparr>last_action_success := Some (w_last_action_success w),
        last_geodesic_distance :=
          guarded_distance (w_distance_to_goal w) (last_geodesic_distance s),
        rewards := rewards s @
          [fadd (fneg (py_float (1 / 100)))
             (fsub (last_geodesic_distance s)
                (guarded_distance (w_distance_to_goal w) (last_geodesic_distance s)))]\<rparr>)"
  using assms(2,3)
  by (simp add: PointNavTask_step_returns[OF assms(1)] PointNavTask_pre_def
        PointNavTask_judge_def Let_def)

lemma ObjectNavTask_step_move_reward:
  assumes "py_getitem ObjectNavTask_actions a = Inr name" "name \<noteq> END" "\<not> took_end_action s"
    and "w_distance_to_goal w = Some x"
  shows "\<exists>r. fst (ObjectNavTask_step s a w) = Inr r
           \<and> reward r = fadd (fneg (py_float (1 / 100)))
                          (fsub (last_geodesic_distance s)
                             (guarded_distance (Some x) (last_geodesic_distance s)))"
  using assms(2,3)
  by (simp add: ObjectNavTask_step_returns[OF assms(1,4)] ObjectNavTask_judge_returns[OF assms(4)]
        ObjectNavTask_pre_fields Let_def)

lemma PointNavTask_run_took_end_iff:
  "took_end_action (PointNavTask_run s cs) =
     (took_end_action s \<or> (\<exists>c \<in> set cs. ends_episode PointNavTask_actions c))"
  unfolding PointNavTask_run_def
proof (induction cs arbitrary: s)
  case Nil
  then show ?case by simp
next
  case (Cons c cs)
  have "took_end_action (PointNavTask_call s c)
          = (took_end_action s \<or> ends_episode PointNavTask_actions c)"
    by (cases c) (simp_all add: PointNavTask_step_took_end PointNavTask_metrics_keeps)
  then show ?case using Cons.IH[of "PointNavTask_call s c"] by auto
qed

lemma ObjectNavTask_run_took_end_iff:
  "took_end_action (ObjectNavTask_run s cs) =
     (took_end_action s \<or> (\<exists>c \<in> set cs. ends_episode ObjectNavTask_actions c))"
  unfolding ObjectNavTask_run_def
proof (induction cs arbitrary: s)
  case Nil
  then show ?case by simp
next
  case (Cons c cs)
  have "took_end_action (ObjectNavTask_call s c)
          = (took_end_action s \<or> ends_episode ObjectNavTask_actions c)"
    by (cases c) (simp_all add: ObjectNavTask_step_took_end ObjectNavTask_metrics_keeps)
  then show ?case using Cons.IH[of "ObjectNavTask_call s c"] by auto
qed

text \<open>
  The reward of a step before \<^verbatim>\<open>end\<close>.  In both variants, a step whose action is not \<^verbatim>\<open>end\<close>
  and that is taken while \<open>took_end_action\<close> is false returns \<open>-0.01\<close> plus (the previous
  \<open>last_geodesic_distance\<close> minus the new guarded reading), with no bonus term; in the
  object-goal variant this is for a reading that is not null.  \<open>took_end_action\<close> is false
  from construction until a step takes \<^verbatim>\<open>end\<close>.
\<close>

lemma reward_of_step_before_end:
  fixes s :: nav_task and w :: "'o world" and cs :: "'o call list"
    and t :: object_nav_task and v :: "('s observations) world"
    and cs' :: "('s observations) call list"
  shows
    "(py_getitem PointNavTask_actions a = Inr name \<and> name \<noteq> END \<and> \<not> took_end_action s \<longrightarrow>
        (\<exists>r. fst (PointNavTask_step s a w) = Inr r
            \<and> reward r = fadd (fneg (py_float (1 / 100)))
                           (fsub (last_geodesic_distance s)
                              (guarded_distance (w_distance_to_goal w)
                                 (last_geodesic_distance s)))))
   \<and> (py_getitem ObjectNavTask_actions b = Inr name' \<and> name' \<noteq> END \<and> \<not> took_end_action t
        \<and> w_distance_to_goal v = Some x \<longrightarrow>
        (\<exists>r. fst (ObjectNavTask_step t b v) = Inr r
            \<and> reward r = fadd (fneg (py_float (1 / 100)))
                           (fsub (last_geodesic_distance t)
                              (guarded_distance (Some x) (last_geodesic_distance t)))))
   \<and> (took_end_action (PointNavTask_run (PointNavTask_init d0 ti) cs)
        = (\<exists>c \<in> set cs. ends_episode PointNavTask_actions c))
   \<and> (took_end_action (ObjectNavTask_run (ObjectNavTask_init d0' ti' scene eid) cs')
        = (\<exists>c \<in> set cs'. ends_episode ObjectNavTask_actions c))"
proof (intro conjI impI)
  assume "py_getitem PointNavTask_actions a = Inr name \<and> name \<noteq> END \<and> \<not> took_end_action s"
  then show "\<exists>r. fst (PointNavTask_step s a w) = Inr r
            \<and> reward r = fadd (fneg (py_float (1 / 100)))
                           (fsub (last_geodesic_distance s)
                              (guarded_distance (w_distance_to_goal w)
                                 (last_geodesic_distance s)))"
    by (simp add: PointNavTask_step_move)
next
  assume "py_getitem ObjectNavTask_actions b = Inr name' \<and> name' \<noteq> END \<and> \<not> took_end_action t
        \<and> w_distance_to_goal v = Some x"
  then show "\<exists>r. fst (ObjectNavTask_step t b v) = Inr r
            \<and> reward r = fadd (fneg (py_float (1 / 100)))
                           (fsub (last_geodesic_distance t)
                              (guarded_distance (Some x) (last_geodesic_distance t)))"
    using ObjectNavTask_step_move_reward by blast
next
  show "took_end_action (PointNavTask_run (PointNavTask_init d0 ti) cs)
        = (\<exists>c \<in> set cs. ends_episode PointNavTask_actions c)"
    by (simp add: PointNavTask_run_took_end_iff PointNavTask_init_def)
next
  show "took_end_action (ObjectNavTask_run (ObjectNavTask_init d0' ti' scene eid) cs')
        = (\<exists>c \<in> set cs'. ends_episode ObjectNavTask_actions c)"
    by (simp add: ObjectNavTask_run_took_end_iff ObjectNavTask_init_def Let_def)
qed

section \<open>A worked episode\<close>

text \<open>
  Claim C6.  A goal-point episode starts at distance 5.0; three \<^verbatim>\<open>move_ahead\<close> steps (index
  0) read the distances 4.0, 3.0 and 2.5, and then \<^verbatim>\<open>end\<close> (index 3) is taken with the goal in
  range and the distance still 2.5.  The four rewards returned are the doubles 0.99, 0.99,
  0.49 and 9.99, and the metrics of the finished episode report the double 12.46 as
  \<open>total_reward\<close> and \<open>success\<close> true.  All values are those of binary64 arithmetic.
\<close>

theorem scenario_rewards:
  fixes w1 w2 w3 w4 wm :: "'o world"
  assumes "w_distance_to_goal w1 = Some (Finite 4)"
    and "w_distance_to_goal w2 = Some (Finite 3)"
    and "w_distance_to_goal w3 = Some (Finite (5 / 2))"
    and "w_distance_to_goal w4 = Some (Finite (5 / 2))"
    and "is_goal_in_range w4"
    and "w_is_done wm"
  shows
    "(let s0 = PointNavTask_init (Some (Finite 5)) ti;
          steps = [(0, w1), (0, w2), (0, w3), (3, w4)];
          s4 = PointNavTask_run s0 (map (\<lambda>(a, w). Step a w) steps);
          m = fst (PointNavTask_metrics s4 wm)
      in PointNavTask_returned s0 steps
           = [py_float (99 / 100), py_float (99 / 100), py_float (49 / 100), py_float (999 / 100)]
         \<and> map_of m ''total_reward'' = Some (PyFloat (py_float (1246 / 100)))
         \<and> map_of m ''success'' = Some (PyBool True))"
proof -
  let ?c = "Finite (- (5764607523034235 / 576460752303423488))"
  let ?r1 = "Finite (4458563631096791 / 4503599627370496)"
  let ?r3 = "Finite (2206763817411543 / 4503599627370496)"
  let ?r4 = "Finite (5623870034678907 / 562949953421312)"
  let ?s0 = "PointNavTask_init (Some (Finite 5)) ti"
  have s0: "?s0 = \<lparr> took_end_action = False, success = False,
                    last_geodesic_distance = Finite 5, rewards = [],
                    last_action_success = None, task_info = ti \<rparr>"
    by (simp add: PointNavTask_init_def guarded_distance_def py_in_def)
  define s1 where "s1 = snd (PointNavTask_step ?s0 0 w1)"
  define s2 where "s2 = snd (PointNavTask_step s1 0 w2)"
  define s3 where "s3 = snd (PointNavTask_step s2 0 w3)"
  define s4 where "s4 = snd (PointNavTask_step s3 3 w4)"
  have move: "py_getitem PointNavTask_actions 0 = Inr MOVE_AHEAD" "MOVE_AHEAD \<noteq> END"
    by (simp_all add: py_getitem_0)
  have e1: "PointNavTask_step ?s0 0 w1 =
      (Inr \<lparr> observation = w_observations w1, reward = ?r1, done_flag = w_is_done w1,
             info = [(''last_action_success'', PyBool (w_last_action_success w1))] \<rparr>,
       \<lparr> took_end_action = False, success = False, last_geodesic_distance = Finite 4,
         rewards = [?r1], last_action_success = Some (w_last_action_success w1),
         task_info = ti \<rparr>)"
    unfolding s0
    by (subst PointNavTask_step_move[OF move])
       (simp_all add: assms guarded_distance_def py_in_def py_float_cent fsub_distances
          fadd_step_cost del: fadd.simps)
  have t1: "s1 = \<lparr> took_end_action = False, success = False, last_geodesic_distance = Finite 4,
         rewards = [?r1], last_action_success = Some (w_last_action_success w1),
         task_info = ti \<rparr>"
    unfolding s1_def e1 by simp
  have e2: "PointNavTask_step s1 0 w2 =
      (Inr \<lparr> observation = w_observations w2, reward = ?r1, done_flag = w_is_done w2,
             info = [(''last_action_success'', PyBool (w_last_action_success w2))] \<rparr>,
       \<lparr> took_end_action = False, success = False, last_geodesic_distance = Finite 3,
         rewards = [?r1, ?r1], last_action_success = Some (w_last_action_success w2),
         task_info = ti \<rparr>)"
    unfolding t1
    by (subst PointNavTask_step_move[OF move])
       (simp_all add: assms guarded_distance_def py_in_def py_float_cent fsub_distances
          fadd_step_cost del: fadd.simps)
  have t2: "s2 = \<lparr> took_end_action = False, success = False, last_geodesic_distance = Finite 3,
         rewards = [?r1, ?r1], last_action_success = Some (w_last_action_success w2),
         task_info = ti \<rparr>"
    unfolding s2_def e2 by simp
  have e3: "PointNavTask_step s2 0 w3 =
      (Inr \<lparr> observation = w_observations w3, reward = ?r3, done_flag = w_is_done w3,
             info = [(''last_action_success'', PyBool (w_last_action_success w3))] \<rparr>,
       \<lparr> took_end_action = False, success = False, last_geodesic_distance = Finite (5 / 2),
         rewards = [?r1, ?r1, ?r3], last_action_success = Some (w_last_action_success w3),
         task_info = ti \<rparr>)"
    unfolding t2
    by (subst PointNavTask_step_move[OF move])
       (simp_all add: assms guarded_distance_def py_in_def py_float_cent fsub_distances
          fadd_step_cost del: fadd.simps)
  have t3: "s3 = \<lparr> took_end_action = False, success = False,
         last_geodesic_distance = Finite (5 / 2),
         rewards = [?r1, ?r1, ?r3], last_action_success = Some (w_last_action_success w3),
         task_info = ti \<rparr>"
    unfolding s3_def e3 by simp
  have e4: "PointNavTask_step s3 3 w4 =
      (Inr \<lparr> observation = w_observations w4, reward = ?r4, done_flag = w_is_done w4,
             info = [(''last_action_success'', PyBool True)] \<rparr>,
       \<lparr> took_end_action = True, success = True, last_geodesic_distance = Finite (5 / 2),
         rewards = [?r1, ?r1, ?r3, ?r4], last_action_success = Some True,
         task_info = ti \<rparr>)"
    unfolding t3
    by (subst PointNavTask_step_end[OF py_getitem_PointNav_3])
       (simp_all add: assms guarded_distance_def py_in_def py_float_cent py_float_ten
          fsub_distances fadd_step_cost fadd_bonus del: fadd.simps)
  have t4: "s4 = \<lparr> took_end_action = True, success = True,
         last_geodesic_distance = Finite (5 / 2),
         rewards = [?r1, ?r1, ?r3, ?r4], last_action_success = Some True,
         task_info = ti \<rparr>"
    unfolding s4_def e4 by simp
  have run: "PointNavTask_run ?s0 (map (\<lambda>(a, w). Step a w) [(0, w1), (0, w2), (0, w3), (3, w4)])
               = s4"
    by (simp add: PointNavTask_run_def s1_def s2_def s3_def s4_def)
  have ret: "PointNavTask_returned ?s0 [(0, w1), (0, w2), (0, w3), (3, w4)]
               = [?r1, ?r1, ?r3, ?r4]"
    using e1 e2 e3 e4 t1 t2 t3 by simp
  have total: "np_sum [?r1, ?r1, ?r3, ?r4] = Finite (1753589104907387 / 140737488355328)"
    by (simp add: np_sum_short fadd_rewards fadd_totals del: fadd.simps)
  have m1: "map_of (fst (PointNavTask_metrics s4 wm)) ''total_reward''
              = Some (PyFloat (Finite (1753589104907387 / 140737488355328)))"
    and m2: "map_of (fst (PointNavTask_metrics s4 wm)) ''success'' = Some (PyBool True)"
    using assms(6) total by (simp_all add: PointNavTask_metrics_def Let_def t4)
  show ?thesis
    unfolding Let_def run ret py_float_literals using m1 m2 by simp
qed

theorem scenario_rewards_witness:
  "is_goal_in_range (example_world () (Some (Finite (5 / 2))) (Some (Finite 1)) True)
   \<and> w_is_done (example_world () (Some (Finite (5 / 2))) (Some (Finite 1)) True)
   \<and> PointNavTask_returned (PointNavTask_init (Some (Finite 5)) [])
        [(0, example_world () (Some (Finite 4)) None False),
         (0, example_world () (Some (Finite 3)) None False),
         (0, example_world () (Some (Finite (5 / 2))) None False),
         (3, example_world () (Some (Finite (5 / 2))) (Some (Finite 1)) True)]
       = [py_float (99 / 100), py_float (99 / 100), py_float (49 / 100), py_float (999 / 100)]"
proof -
  have h: "w_distance_to_goal (example_world () (Some (Finite 4)) None False) = Some (Finite 4)"
    "w_distance_to_goal (example_world () (Some (Finite 3)) None False) = Some (Finite 3)"
    "w_distance_to_goal (example_world () (Some (Finite (5 / 2))) None False)
       = Some (Finite (5 / 2))"
    "w_distance_to_goal (example_world () (Some (Finite (5 / 2))) (Some (Finite 1)) True)
       = Some (Finite (5 / 2))"
    "is_goal_in_range (example_world () (Some (Finite (5 / 2))) (Some (Finite 1)) True)"
    "w_is_done (example_world () (Some (Finite (5 / 2))) (Some (Finite 1)) True)"
    by (simp_all add: example_world_def is_goal_in_range_def)
  from scenario_rewards[OF h, where ti = "[]"] show ?thesis
    using h(5,6) unfolding Let_def by blast
qed

section \<open>The total reward\<close>





text \<open>
  The logs stored in \<open>task_info\<close> are the lists themselves: after \<^verbatim>\<open>metrics()\<close>, the entry
  \<open>taken_actions\<close> shows the action of a later step.
\<close>

lemma task_info_shows_later_steps:
  assumes "py_getitem ObjectNavTask_actions a = Inr name"
  shows "map_of (task_info (snd (ObjectNavTask_metrics s w))) ''taken_actions''
           = Some (PyRef ''_actions_taken'')
       \<and> ObjectNavTask_attr (snd (ObjectNavTask_step (snd (ObjectNavTask_metrics s w)) a v))
            ''_actions_taken''
           = PyList (map PyAction (actions_taken s @ [name]))"
proof -
  let ?s1 = "snd (ObjectNavTask_metrics s w)"
  have t: "map_of (task_info ?s1) ''taken_actions'' = Some (PyRef ''_actions_taken'')"
    by (simp add: ObjectNavTask_metrics_def Let_def update_conv')
  have k: "actions_taken ?s1 = actions_taken s"
    by (simp add: ObjectNavTask_metrics_def Let_def)
  have "actions_taken (snd (ObjectNavTask_step ?s1 a v)) = actions_taken ?s1 @ [name]"
    by (cases "w_distance_to_goal v")
       (simp_all add: ObjectNavTask_step_type_error[OF assms]
          ObjectNavTask_step_returns[OF assms] ObjectNavTask_judge_returns
          ObjectNavTask_pre_def ObjectNavTask_post_def Let_def)
  then show ?thesis
    using t k by (simp add: ObjectNavTask_attr_def)
qed

section \<open>A null distance reading in the object-goal variant\<close>

lemma ObjectNavTask_step_reward:
  assumes "py_getitem ObjectNavTask_actions a = Inr name" and "w_distance_to_goal w = Some x"
  shows "map_sum id reward (fst (ObjectNavTask_step s a w)) =
     Inr (let base = fadd (fneg (py_float (1 / 100)))
                       (fsub (last_geodesic_distance s)
                          (guarded_distance (Some x) (last_geodesic_distance s)))
          in if took_end_action s \<or> name = END
             then fadd base (if (if name = END then is_goal_in_range w else success s)
                             then py_float 10 else py_float 0)
             else base)"
  by (simp add: ObjectNavTask_step_returns[OF assms] ObjectNavTask_judge_returns[OF assms(2)]
        ObjectNavTask_pre_fields Let_def)

text \<open>
  Claim C1.  The claim asks of both variants that a step with the index of \<^verbatim>\<open>end\<close> sets
  \<open>took_end_action\<close>, sets \<open>success\<close> to the goal-in-range test and \<open>last_action_success\<close> to
  \<open>success\<close>, and returns a reward that includes \<open>+10.0\<close> exactly when \<open>success\<close> is true.
  \<^verbatim>\<open>PointNavTask\<close> does so for every reading.  \<^verbatim>\<open>ObjectNavTask.judge\<close> takes
  \<^verbatim>\<open>min(new_geodesic_distance, self._min_distance_to_goal)\<close> before the guard that replaces
  a null reading, so with a null reading and the goal in range the step sets the three
  fields, \<open>success\<close> is true, and then a \<^verbatim>\<open>TypeError\<close> is raised: no reward is returned and
  none is logged.  The theorem evaluates the \<^verbatim>\<open>end\<close> step (index 3) of both variants at
  distance 5.0 with a null reading and SPL 1.0: the goal-point variant returns 9.99, as
  does the object-goal variant when the reading is 5.0.
\<close>

theorem end_step_with_null_reading:
  "py_getitem ObjectNavTask_actions 3 = Inr END
   \<and> is_goal_in_range (example_world example_pose None (Some (Finite 1)) True)
   \<and> fst (ObjectNavTask_step
            (ObjectNavTask_init (Some (Finite 5)) [] ''17DRP5sb8fy.glb'' ''0'') 3
            (example_world example_pose None (Some (Finite 1)) True)) = Inl TypeError
   \<and> took_end_action (snd (ObjectNavTask_step
            (ObjectNavTask_init (Some (Finite 5)) [] ''17DRP5sb8fy.glb'' ''0'') 3
            (example_world example_pose None (Some (Finite 1)) True)))
   \<and> success (snd (ObjectNavTask_step
            (ObjectNavTask_init (Some (Finite 5)) [] ''17DRP5sb8fy.glb'' ''0'') 3
            (example_world example_pose None (Some (Finite 1)) True)))
   \<and> last_action_success (snd (ObjectNavTask_step
            (ObjectNavTask_init (Some (Finite 5)) [] ''17DRP5sb8fy.glb'' ''0'') 3
            (example_world example_pose None (Some (Finite 1)) True))) = Some True
   \<and> rewards (snd (ObjectNavTask_step
            (ObjectNavTask_init (Some (Finite 5)) [] ''17DRP5sb8fy.glb'' ''0'') 3
            (example_world example_pose None (Some (Finite 1)) True))) = []
   \<and> map_sum id reward (fst (PointNavTask_step (PointNavTask_init (Some (Finite 5)) []) 3
            (example_world () None (Some (Finite 1)) True))) = Inr (py_float (999 / 100))
   \<and> success (snd (PointNavTask_step (PointNavTask_init (Some (Finite 5)) []) 3
            (example_world () None (Some (Finite 1)) True)))
   \<and> map_sum id reward (fst (ObjectNavTask_step
            (ObjectNavTask_init (Some (Finite 5)) [] ''17DRP5sb8fy.glb'' ''0'') 3
            (example_world example_pose (Some (Finite 5)) (Some (Finite 1)) True)))
        = Inr (py_float (999 / 100))"
proof -
  have w: "w_distance_to_goal (example_world example_pose None (Some (Finite 1)) True) = None"
    by (simp add: example_world_def)
  have g: "is_goal_in_range (example_world ob None (Some (Finite 1)) True)" for ob :: 'b
    by (simp add: example_world_def is_goal_in_range_def)
  have o: "ObjectNavTask_step
            (ObjectNavTask_init (Some (Finite 5)) [] ''17DRP5sb8fy.glb'' ''0'') 3
            (example_world example_pose None (Some (Finite 1)) True)
         = (Inl TypeError,
            ObjectNavTask_pre (ObjectNavTask_init (Some (Finite 5)) [] ''17DRP5sb8fy.glb'' ''0'')
              END (example_world example_pose None (Some (Finite 1)) True))"
    by (rule ObjectNavTask_step_type_error[OF py_getitem_ObjectNav_3 w])
  have p: "map_sum id reward (fst (PointNavTask_step (PointNavTask_init (Some (Finite 5)) []) 3
            (example_world () None (Some (Finite 1)) True))) = Inr (py_float (999 / 100))"
    apply (simp only: PointNavTask_step_end[OF py_getitem_PointNav_3] g if_True)
    apply (simp add: PointNavTask_init_def example_world_def guarded_distance_def py_in_def
          py_float_cent py_float_ten py_float_literals fsub_distances fadd_step_cost fadd_bonus
          del: fadd.simps)
    done
  have q: "success (snd (PointNavTask_step (PointNavTask_init (Some (Finite 5)) []) 3
            (example_world () None (Some (Finite 1)) True)))"
    by (simp add: PointNavTask_step_end[OF py_getitem_PointNav_3] g)
  have w5: "w_distance_to_goal (example_world example_pose (Some (Finite 5)) (Some (Finite 1)) True)
              = Some (Finite 5)"
    by (simp add: example_world_def)
  have g5: "is_goal_in_range (example_world example_pose (Some (Finite 5)) (Some (Finite 1)) True)"
    by (simp add: example_world_def is_goal_in_range_def)
  have r: "map_sum id reward (fst (ObjectNavTask_step
            (ObjectNavTask_init (Some (Finite 5)) [] ''17DRP5sb8fy.glb'' ''0'') 3
            (example_world example_pose (Some (Finite 5)) (Some (Finite 1)) True)))
        = Inr (py_float (999 / 100))"
    apply (simp only: ObjectNavTask_step_reward[OF py_getitem_ObjectNav_3 w5] g5 if_True
             simp_thms Let_def)
    apply (simp add: ObjectNavTask_init_def guarded_distance_def py_in_def Let_def
          py_float_cent py_float_ten py_float_literals fsub_distances fadd_step_cost fadd_bonus
          del: fadd.simps)
    done
  show ?thesis
    unfolding o using p q g r
    by (simp add: py_getitem_ObjectNav_3 ObjectNavTask_pre_fields ObjectNavTask_init_def Let_def)
qed

text \<open>
  Claim C2.  The claim asks of both variants that a step whose action is not \<^verbatim>\<open>end\<close>
  returns \<open>-0.01\<close> plus (the previous \<open>last_geodesic_distance\<close> minus the new guarded
  reading), with no bonus.  \<^verbatim>\<open>PointNavTask\<close> does so.  In \<^verbatim>\<open>ObjectNavTask.judge\<close> the same
  \<^verbatim>\<open>min\<close> before the guard raises a \<^verbatim>\<open>TypeError\<close> on a null reading, where the guard would
  have put the previous distance in its place: no reward is returned.  The theorem
  evaluates a \<^verbatim>\<open>move_ahead\<close> step (index 0) of both fresh tasks at distance 5.0 with a null
  reading: the goal-point variant returns \<open>-0.01\<close>.  With the reading 4.0 both variants
  return 0.99.
\<close>

theorem move_step_with_null_reading:
  "py_getitem ObjectNavTask_actions 0 = Inr MOVE_AHEAD
   \<and> fst (ObjectNavTask_step
            (ObjectNavTask_init (Some (Finite 5)) [] ''17DRP5sb8fy.glb'' ''0'') 0
            (example_world example_pose None None False)) = Inl TypeError
   \<and> rewards (snd (ObjectNavTask_step
            (ObjectNavTask_init (Some (Finite 5)) [] ''17DRP5sb8fy.glb'' ''0'') 0
            (example_world example_pose None None False))) = []
   \<and> guarded_distance None (Finite 5) = Finite 5
   \<and> map_sum id reward (fst (PointNavTask_step (PointNavTask_init (Some (Finite 5)) []) 0
            (example_world () None None False))) = Inr (fneg (py_float (1 / 100)))
   \<and> fadd (fneg (py_float (1 / 100))) (fsub (Finite 5) (guarded_distance None (Finite 5)))
        = fneg (py_float (1 / 100))
   \<and> fneg (py_float (1 / 100)) = Finite (- (5764607523034235 / 576460752303423488))
   \<and> map_sum id reward (fst (ObjectNavTask_step
            (ObjectNavTask_init (Some (Finite 5)) [] ''17DRP5sb8fy.glb'' ''0'') 0
            (example_world example_pose (Some (Finite 4)) None False)))
        = Inr (py_float (99 / 100))
   \<and> map_sum id reward (fst (PointNavTask_step (PointNavTask_init (Some (Finite 5)) []) 0
            (example_world () (Some (Finite 4)) None False)))
        = Inr (py_float (99 / 100))"
proof -
  have w: "w_distance_to_goal (example_world example_pose None None False) = None"
    by (simp add: example_world_def)
  have o: "ObjectNavTask_step
            (ObjectNavTask_init (Some (Finite 5)) [] ''17DRP5sb8fy.glb'' ''0'') 0
            (example_world example_pose None None False)
         = (Inl TypeError,
            ObjectNavTask_pre (ObjectNavTask_init (Some (Finite 5)) [] ''17DRP5sb8fy.glb'' ''0'')
              MOVE_AHEAD (example_world example_pose None None False))"
    by (rule ObjectNavTask_step_type_error[OF py_getitem_0(2) w])
  have i: "\<not> took_end_action (PointNavTask_init (Some (Finite 5)) [])"
    by (simp add: PointNavTask_init_def)
  have m: "MOVE_AHEAD \<noteq> END" by simp
  have p: "map_sum id reward (fst (PointNavTask_step (PointNavTask_init (Some (Finite 5)) []) 0
            (example_world () None None False))) = Inr (fneg (py_float (1 / 100)))"
    apply (simp only: PointNavTask_step_move[OF py_getitem_0(1) m i])
    apply (simp add: PointNavTask_init_def example_world_def guarded_distance_def py_in_def
          py_float_cent fsub_distances fadd_step_cost del: fadd.simps)
    done
  have f: "fadd (fneg (py_float (1 / 100))) (fsub (Finite 5) (guarded_distance None (Finite 5)))
        = fneg (py_float (1 / 100))"
    by (simp add: guarded_distance_def py_float_cent fsub_distances fadd_step_cost
          del: fadd.simps)
  have w4: "w_distance_to_goal (example_world example_pose (Some (Finite 4)) None False)
              = Some (Finite 4)"
    by (simp add: example_world_def)
  have r: "map_sum id reward (fst (ObjectNavTask_step
            (ObjectNavTask_init (Some (Finite 5)) [] ''17DRP5sb8fy.glb'' ''0'') 0
            (example_world example_pose (Some (Finite 4)) None False)))
        = Inr (py_float (99 / 100))"
    apply (simp only: ObjectNavTask_step_reward[OF py_getitem_0(2) w4])
    apply (simp add: ObjectNavTask_init_def guarded_distance_def py_in_def Let_def
          py_float_cent py_float_literals fsub_distances fadd_step_cost del: fadd.simps)
    done
  have r': "map_sum id reward (fst (PointNavTask_step (PointNavTask_init (Some (Finite 5)) []) 0
            (example_world () (Some (Finite 4)) None False)))
        = Inr (py_float (99 / 100))"
    apply (simp only: PointNavTask_step_move[OF py_getitem_0(1) m i])
    apply (simp add: PointNavTask_init_def example_world_def guarded_distance_def py_in_def
          py_float_cent py_float_literals fsub_distances fadd_step_cost del: fadd.simps)
    done
  show ?thesis
    unfolding o using p f r r'
    by (simp add: py_getitem_0 ObjectNavTask_pre_fields ObjectNavTask_init_def Let_def
          guarded_distance_def py_float_cent)
qed

end
